theory Spec2Isabelle
  imports Complex_Main "HOL-Library.Word" "HOL-Library.Log_Nat"
begin

unbundle bit_operations_syntax

section \<open>JavaScript values used by the decoder\<close>

subsection \<open>Strings\<close>

text \<open>
  A JavaScript string is a sequence of UTF-16 code units; \<open>length\<close> counts code units.
  ASCII literals of the source are injected with \<open>of_ascii\<close>.
\<close>

type_synonym js_string = "16 word list"

definition of_ascii :: "string \<Rightarrow> js_string" where
  "of_ascii s = map (\<lambda>c. of_nat (of_char c)) s"

text \<open>
  The regular expression class \<open>\s\<close> (without the unicode flag): the WhiteSpace and
  LineTerminator code units of ECMAScript.
\<close>

definition is_whitespace :: "16 word \<Rightarrow> bool" where
  "is_whitespace c \<longleftrightarrow>
     c = 0x09 \<or> c = 0x0A \<or> c = 0x0B \<or> c = 0x0C \<or> c = 0x0D \<or> c = 0x20 \<or>
     c = 0xA0 \<or> c = 0x1680 \<or> (0x2000 \<le> c \<and> c \<le> 0x200A) \<or>
     c = 0x2028 \<or> c = 0x2029 \<or> c = 0x202F \<or> c = 0x205F \<or> c = 0x3000 \<or> c = 0xFEFF"

text \<open>The value of a character of the class \<open>[0-9A-Fa-f]\<close>, \<open>None\<close> outside it.\<close>

definition hex_digit :: "16 word \<Rightarrow> nat option" where
  "hex_digit c =
     (if 0x30 \<le> c \<and> c \<le> 0x39 then Some (unat c - 0x30)
      else if 0x41 \<le> c \<and> c \<le> 0x46 then Some (unat c - 0x41 + 10)
      else if 0x61 \<le> c \<and> c \<le> 0x66 then Some (unat c - 0x61 + 10)
      else None)"

definition is_hex_char :: "16 word \<Rightarrow> bool" where
  "is_hex_char c \<longleftrightarrow> hex_digit c \<noteq> None"

subsection \<open>Numbers\<close>

text \<open>
  A JavaScript number is an IEEE-754 binary64 value. A finite one is carried as the
  rational it denotes, so every operation rounds its exact result to binary64 with
  \<open>round_binary64\<close>. The two zeros are identified: the decoder's results leave the
  process as JSON, which prints both as \<open>0\<close>, and no operation below divides by a
  negative zero (the only divisor is an array length).
\<close>

datatype js_number = NaN | Infinity bool | Fin rat

text \<open>
  \<open>floor_log2 a\<close> is the integer \<open>e\<close> with \<open>2 powi e \<le> a < 2 powi (e + 1)\<close>, for
  \<open>a > 0\<close>: the binary exponent of \<open>a\<close>.
\<close>

definition floor_log2 :: "rat \<Rightarrow> int" where
  "floor_log2 a = (if 1 \<le> a then bitlen \<lfloor>a\<rfloor> - 1 else - bitlen (\<lceil>1 / a\<rceil> - 1))"

definition round_half_even :: "rat \<Rightarrow> int" where
  "round_half_even x =
     (let f = \<lfloor>x\<rfloor>; r = x - of_int f
      in if r < 1 / 2 then f else if 1 / 2 < r then f + 1
         else if even f then f else f + 1)"

text \<open>
  Round to nearest, ties to even, with 53 significant bits, exponents from \<open>-1022\<close>
  (subnormal numbers below) and overflow to infinity from \<open>2 powi 1024\<close>.
\<close>

definition round_binary64 :: "rat \<Rightarrow> js_number" where
  "round_binary64 q =
     (if q = 0 then Fin 0
      else
        let a = \<bar>q\<bar>;
            e = max (floor_log2 a) (- 1022);
            u = 2 powi (e - 52);
            r = of_int (round_half_even (a / u)) * u
        in if 2 powi 1024 \<le> r then Infinity (q < 0)
           else Fin (if q < 0 then - r else r))"

text \<open>\<open>isNaN\<close>, the comparisons \<open><\<close>, \<open>>\<close>, \<open><=\<close>, and \<open>Math.abs\<close>.\<close>

definition isNaN :: "js_number \<Rightarrow> bool" where
  "isNaN x \<longleftrightarrow> x = NaN"

fun js_lt :: "js_number \<Rightarrow> js_number \<Rightarrow> bool" where
  "js_lt NaN _ = False"
| "js_lt _ NaN = False"
| "js_lt (Fin a) (Fin b) = (a < b)"
| "js_lt (Fin a) (Infinity neg) = (\<not> neg)"
| "js_lt (Infinity neg) (Fin b) = neg"
| "js_lt (Infinity n1) (Infinity n2) = (n1 \<and> \<not> n2)"

definition js_gt :: "js_number \<Rightarrow> js_number \<Rightarrow> bool" where
  "js_gt x y = js_lt y x"

fun js_le :: "js_number \<Rightarrow> js_number \<Rightarrow> bool" where
  "js_le NaN _ = False"
| "js_le _ NaN = False"
| "js_le x y = (\<not> js_lt y x)"

fun js_abs :: "js_number \<Rightarrow> js_number" where
  "js_abs NaN = NaN"
| "js_abs (Infinity _) = Infinity False"
| "js_abs (Fin a) = Fin \<bar>a\<bar>"

text \<open>Subtraction, multiplication and division of binary64 values.\<close>

fun js_sub :: "js_number \<Rightarrow> js_number \<Rightarrow> js_number" where
  "js_sub NaN _ = NaN"
| "js_sub _ NaN = NaN"
| "js_sub (Fin a) (Fin b) = round_binary64 (a - b)"
| "js_sub (Fin a) (Infinity neg) = Infinity (\<not> neg)"
| "js_sub (Infinity neg) (Fin b) = Infinity neg"
| "js_sub (Infinity n1) (Infinity n2) = (if n1 = n2 then NaN else Infinity n1)"

fun js_mul :: "js_number \<Rightarrow> js_number \<Rightarrow> js_number" where
  "js_mul NaN _ = NaN"
| "js_mul _ NaN = NaN"
| "js_mul (Fin a) (Fin b) = round_binary64 (a * b)"
| "js_mul (Fin a) (Infinity neg) = (if a = 0 then NaN else Infinity (neg \<noteq> (a < 0)))"
| "js_mul (Infinity neg) (Fin b) = (if b = 0 then NaN else Infinity (neg \<noteq> (b < 0)))"
| "js_mul (Infinity n1) (Infinity n2) = Infinity (n1 \<noteq> n2)"

text \<open>Division; a zero divisor is the positive zero.\<close>

fun js_div :: "js_number \<Rightarrow> js_number \<Rightarrow> js_number" where
  "js_div NaN _ = NaN"
| "js_div _ NaN = NaN"
| "js_div (Fin a) (Fin b) =
     (if b = 0 then (if a = 0 then NaN else Infinity (a < 0)) else round_binary64 (a / b))"
| "js_div (Fin a) (Infinity neg) = Fin 0"
| "js_div (Infinity neg) (Fin b) = Infinity (neg \<noteq> (b < 0))"
| "js_div (Infinity n1) (Infinity n2) = NaN"

text \<open>
  \<open>Number.prototype.toFixed(f)\<close>. A non-finite number and a number of magnitude at
  least \<open>10^21\<close> print as \<open>String(x)\<close>; any other number prints the integer \<open>n\<close>
  closest to \<open>\<bar>x\<bar> * 10^f\<close> (the larger one of two) with \<open>f\<close> digits after the point,
  behind a minus sign when \<open>x < 0\<close>. The string is kept in this structured form.
\<close>

datatype fixed_string = ToString js_number | Digits bool nat

fun toFixed :: "nat \<Rightarrow> js_number \<Rightarrow> fixed_string" where
  "toFixed f (Fin x) =
     (if 10 ^ 21 \<le> \<bar>x\<bar> then ToString (Fin x)
      else Digits (x < 0) (nat \<lfloor>\<bar>x\<bar> * 10 ^ f + 1 / 2\<rfloor>))"
| "toFixed f x = ToString x"

text \<open>
  \<open>parseFloat\<close> on a string printed by \<open>toFixed(f)\<close>: the binary64 value nearest
  to the decimal; \<open>String(x)\<close> parses back to \<open>x\<close>.
\<close>

fun parseFloat_fixed :: "nat \<Rightarrow> fixed_string \<Rightarrow> js_number" where
  "parseFloat_fixed f (ToString x) = x"
| "parseFloat_fixed f (Digits neg n) =
     round_binary64 ((if neg then - 1 else 1) * of_nat n / 10 ^ f)"

text \<open>A decimal number literal of the source denotes the nearest binary64 value.\<close>

definition js_lit :: "rat \<Rightarrow> js_number" where
  "js_lit d = round_binary64 d"

section \<open>The hex decoder (decoderService.js)\<close>

subsection \<open>Buffers\<close>

text \<open>
  \<open>Buffer.from(s, 'hex')\<close>: one byte for each pair of hex digits, stopping at the
  first pair that is not one.
\<close>

fun buffer_from_hex :: "js_string \<Rightarrow> 8 word list" where
  "buffer_from_hex (a # b # rest) =
     (case (hex_digit a, hex_digit b) of
        (Some x, Some y) \<Rightarrow> of_nat (16 * x + y) # buffer_from_hex rest
      | _ \<Rightarrow> [])"
| "buffer_from_hex _ = []"

text \<open>
  The value of a binary32 bit pattern (sign bit 31, exponent bits 30 to 23, fraction
  bits 22 to 0); every binary32 value is a binary64 value.
\<close>

definition float32_value :: "nat \<Rightarrow> js_number" where
  "float32_value bits =
     (let neg = odd (bits div 2 ^ 31);
          ex = (bits div 2 ^ 23) mod 256;
          frac = bits mod 2 ^ 23;
          sgn = (if neg then - 1 else 1)
      in if ex = 255 then (if frac = 0 then Infinity neg else NaN)
         else if ex = 0 then Fin (sgn * of_nat frac * 2 powi (- 149))
         else Fin (sgn * of_nat (2 ^ 23 + frac) * 2 powi (int ex - 150)))"

text \<open>
  \<open>buf.readFloatLE(offset)\<close>: the four bytes from \<open>offset\<close>, least significant
  first, as a binary32 bit pattern; a read past the end raises a RangeError (\<open>None\<close>).
\<close>

definition readFloatLE :: "8 word list \<Rightarrow> nat \<Rightarrow> js_number option" where
  "readFloatLE buf off =
     (if off + 4 \<le> length buf
      then Some (float32_value
             (unat (buf ! off) + 2 ^ 8 * unat (buf ! (off + 1)) +
              2 ^ 16 * unat (buf ! (off + 2)) + 2 ^ 24 * unat (buf ! (off + 3))))
      else None)"

subsection \<open>Errors\<close>

text \<open>
  Each error raised with \<open>createApiError(message, 400)\<close> is a constructor holding what
  its message is built from:
  \<^item> \<open>InvalidHexString\<close>: "Invalid hex string provided";
  \<^item> \<open>InvalidFormat\<close>: "Invalid hexadecimal format";
  \<^item> \<open>InvalidLength expected got\<close>: "Invalid hex data length. Expected 24 characters
    (12 bytes), got <got>";
  \<^item> \<open>InvalidSensorValues vs\<close>: "Invalid sensor values detected: " followed by the
    entries of \<open>vs\<close> joined with ", ", each "Invalid <field>: <value><unit>";
  \<^item> \<open>FailedToDecode\<close>: "Failed to decode hex data: <message of a RangeError>".
\<close>

datatype field = Temperature | Humidity | Pressure

datatype api_error =
    InvalidHexString
  | InvalidFormat
  | InvalidLength nat nat
  | InvalidSensorValues "(field \<times> js_number) list"
  | FailedToDecode

subsection \<open>validateSensorValues\<close>

definition validateSensorValues :: "js_number \<Rightarrow> js_number \<Rightarrow> js_number \<Rightarrow> api_error + unit" where
  "validateSensorValues temperature humidity pressure =
     (let validationErrors =
            (if isNaN temperature \<or> js_lt temperature (Fin (- 50)) \<or> js_gt temperature (Fin 85)
             then [(Temperature, temperature)] else []) @
            (if isNaN humidity \<or> js_lt humidity (Fin 0) \<or> js_gt humidity (Fin 100)
             then [(Humidity, humidity)] else []) @
            (if isNaN pressure \<or> js_lt pressure (Fin 300) \<or> js_gt pressure (Fin 1200)
             then [(Pressure, pressure)] else [])
      in if length validationErrors > 0 then Inl (InvalidSensorValues validationErrors)
         else Inr ())"

text \<open>
  The ranges of the data model, for stating what the validation accepts: a finite
  number within the inclusive range of its field.
\<close>

fun in_range :: "rat \<Rightarrow> rat \<Rightarrow> js_number \<Rightarrow> bool" where
  "in_range lo hi (Fin x) = (lo \<le> x \<and> x \<le> hi)"
| "in_range lo hi _ = False"

fun field_ok :: "field \<Rightarrow> js_number \<Rightarrow> bool" where
  "field_ok Temperature x = in_range (- 50) 85 x"
| "field_ok Humidity x = in_range 0 100 x"
| "field_ok Pressure x = in_range 300 1200 x"

definition violates :: "field \<times> js_number \<Rightarrow> bool" where
  "violates v \<longleftrightarrow> \<not> field_ok (fst v) (snd v)"

subsection \<open>decodeHexString\<close>

text \<open>
  A value of the fetched JSON, as far as the decoder tells values apart: a string is
  kept whole, any object or array is \<open>Object\<close>.
\<close>

datatype js_value = Undefined | Null | Boolean bool | Number js_number | String js_string | Object

fun truthy :: "js_value \<Rightarrow> bool" where
  "truthy Undefined = False"
| "truthy Null = False"
| "truthy (Boolean b) = b"
| "truthy (Number x) = (x \<noteq> NaN \<and> x \<noteq> Fin 0)"
| "truthy (String s) = (s \<noteq> [])"
| "truthy Object = True"

text \<open>\<open>hexString.replace(/\s/g, '')\<close> and \<open>/^[0-9A-Fa-f]+$/.test(cleanHex)\<close>.\<close>

definition strip_whitespace :: "js_string \<Rightarrow> js_string" where
  "strip_whitespace s = filter (\<lambda>c. \<not> is_whitespace c) s"

definition is_hex_string :: "js_string \<Rightarrow> bool" where
  "is_hex_string s \<longleftrightarrow> s \<noteq> [] \<and> list_all is_hex_char s"

text \<open>The object with the three readings: decoded values, differences, match flags.\<close>

record 'a readings =
  temperature :: 'a
  humidity :: 'a
  pressure :: 'a

type_synonym decoded_reading = "js_number readings"

text \<open>
  The body of the \<open>try\<close> block: a RangeError of a read is caught and raised again as
  \<open>FailedToDecode\<close>, an error of \<open>validateSensorValues\<close> is raised again as it is.
\<close>

definition decode_buffer :: "8 word list \<Rightarrow> api_error + decoded_reading" where
  "decode_buffer buffer =
     (case (readFloatLE buffer 0, readFloatLE buffer 4, readFloatLE buffer 8) of
        (Some t, Some h, Some p) \<Rightarrow>
          (case validateSensorValues t h p of
             Inl e \<Rightarrow> Inl e
           | Inr _ \<Rightarrow>
               Inr \<lparr> temperature = parseFloat_fixed 4 (toFixed 4 t),
                     humidity = parseFloat_fixed 4 (toFixed 4 h),
                     pressure = parseFloat_fixed 4 (toFixed 4 p) \<rparr>)
      | _ \<Rightarrow> Inl FailedToDecode)"

fun decodeHexString :: "js_value \<Rightarrow> api_error + decoded_reading" where
  "decodeHexString (String hexString) =
     (if hexString = [] then Inl InvalidHexString
      else
        let cleanHex = strip_whitespace hexString
        in if \<not> is_hex_string cleanHex then Inl InvalidFormat
           else if length cleanHex \<noteq> 24 then Inl (InvalidLength 24 (length cleanHex))
           else decode_buffer (buffer_from_hex cleanHex))"
| "decodeHexString _ = Inl InvalidHexString"

section \<open>Batch decoding (fetchAndDecodeData)\<close>

text \<open>
  A record of the fetched array. \<open>timestamp\<close> holds the time value
  \<open>new Date(r.timestamp).getTime()\<close>, a number of milliseconds or \<open>NaN\<close> for an invalid
  date. A ground-truth field holds \<open>None\<close> when the property is \<open>undefined\<close> and
  otherwise the number that \<open>parseFloat\<close> reads from it, the only use the service makes
  of a defined one.
\<close>

record source_record =
  device :: "js_string option"
  timestamp :: js_number
  hexData :: js_value
  gt_temperature :: "js_number option"
  gt_humidity :: "js_number option"
  gt_pressure :: "js_number option"

text \<open>
  The result for one record: with \<open>decoded\<close> and \<open>hexBytes\<close> on success, with
  \<open>decoded: null\<close> and \<open>error\<close> on failure (an absent property is \<open>None\<close>). The
  timestamp is copied from the record, here as its time value.
\<close>

record decode_result =
  d_device :: "js_string option"
  d_timestamp :: js_number
  originalHex :: js_value
  decoded :: "decoded_reading option"
  hexBytes :: "js_number option"
  decodingSuccess :: bool
  d_error :: "api_error option"

text \<open>\<open>record.hexData.length\<close>; the property of a value that is not a string is not a number.\<close>

fun js_length :: "js_value \<Rightarrow> js_number" where
  "js_length (String s) = Fin (of_nat (length s))"
| "js_length _ = NaN"

definition decode_record :: "source_record \<Rightarrow> decode_result" where
  "decode_record r =
     (case decodeHexString (hexData r) of
        Inr d \<Rightarrow>
          \<lparr> d_device = device r, d_timestamp = timestamp r, originalHex = hexData r,
            decoded = Some \<lparr> temperature = temperature d, humidity = humidity d,
                             pressure = pressure d \<rparr>,
            hexBytes = Some (js_div (js_length (hexData r)) (Fin 2)),
            decodingSuccess = True, d_error = None \<rparr>
      | Inl e \<Rightarrow>
          \<lparr> d_device = device r, d_timestamp = timestamp r, originalHex = hexData r,
            decoded = None, hexBytes = None, decodingSuccess = False, d_error = Some e \<rparr>)"

text \<open>The service from the fetched array on (the request and its network errors are left out).\<close>

definition fetchAndDecodeData :: "source_record list \<Rightarrow> decode_result list" where
  "fetchAndDecodeData data =
     (let hexDataRecords = filter (\<lambda>r. truthy (hexData r)) data
      in if length hexDataRecords = 0 then [] else map decode_record hexDataRecords)"

section \<open>Accuracy validation (validateDecodingAccuracy)\<close>

record validation_pair =
  hexRecord :: source_record
  actualRecord :: source_record

text \<open>The predicate of \<open>allData.find\<close> for the hex record \<open>record\<close>.\<close>

definition is_actual_for :: "source_record \<Rightarrow> source_record \<Rightarrow> bool" where
  "is_actual_for record r \<longleftrightarrow>
     device r = device record \<and>
     gt_temperature r \<noteq> None \<and>
     gt_humidity r \<noteq> None \<and>
     gt_pressure r \<noteq> None \<and>
     js_lt (js_abs (js_sub (timestamp r) (timestamp record))) (Fin 5000)"

text \<open>The \<open>for\<close> loop over \<open>allData\<close>, pushing onto the array \<open>pairs\<close> of validation pairs.\<close>

fun pairing_loop :: "source_record list \<Rightarrow> validation_pair list \<Rightarrow> source_record list \<Rightarrow> validation_pair list" where
  "pairing_loop allData pairs [] = pairs"
| "pairing_loop allData pairs (record # rest) =
     (if truthy (hexData record) then
        (case find (is_actual_for record) allData of
           Some found \<Rightarrow>
             pairing_loop allData (pairs @ [\<lparr> hexRecord = record, actualRecord = found \<rparr>]) rest
         | None \<Rightarrow> pairing_loop allData pairs rest)
      else pairing_loop allData pairs rest)"

definition validationPairs :: "source_record list \<Rightarrow> validation_pair list" where
  "validationPairs allData = pairing_loop allData [] allData"

record validation_result =
  v_device :: "js_string option"
  v_timestamp :: js_number
  v_hexData :: js_value
  v_decoded :: "decoded_reading option"
  actual :: "decoded_reading option"
  differences :: "fixed_string readings option"
  matches :: "bool readings option"
  isAccurate :: bool
  tolerance :: "js_number option"
  v_error :: "api_error option"

text \<open>\<open>parseFloat\<close> of a ground-truth property; \<open>undefined\<close> parses to \<open>NaN\<close>.\<close>

fun parseFloat_field :: "js_number option \<Rightarrow> js_number" where
  "parseFloat_field None = NaN"
| "parseFloat_field (Some x) = x"

definition compare_pair :: "validation_pair \<Rightarrow> validation_result" where
  "compare_pair pair =
     (case decodeHexString (hexData (hexRecord pair)) of
        Inr d \<Rightarrow>
          (let a = \<lparr> temperature = parseFloat_field (gt_temperature (actualRecord pair)),
                     humidity = parseFloat_field (gt_humidity (actualRecord pair)),
                     pressure = parseFloat_field (gt_pressure (actualRecord pair)) \<rparr>;
               tol = js_lit (1 / 100);
               tempMatch = js_le (js_abs (js_sub (temperature d) (temperature a))) tol;
               humidityMatch = js_le (js_abs (js_sub (humidity d) (humidity a))) tol;
               pressureMatch = js_le (js_abs (js_sub (pressure d) (pressure a))) tol
           in \<lparr> v_device = device (hexRecord pair), v_timestamp = timestamp (hexRecord pair),
                v_hexData = hexData (hexRecord pair),
                v_decoded = Some d, actual = Some a,
                differences = Some
                  \<lparr> temperature = toFixed 4 (js_sub (temperature d) (temperature a)),
                    humidity = toFixed 4 (js_sub (humidity d) (humidity a)),
                    pressure = toFixed 4 (js_sub (pressure d) (pressure a)) \<rparr>,
                matches = Some \<lparr> temperature = tempMatch, humidity = humidityMatch,
                                 pressure = pressureMatch \<rparr>,
                isAccurate = (tempMatch \<and> humidityMatch \<and> pressureMatch),
                tolerance = Some tol, v_error = None \<rparr>)
      | Inl e \<Rightarrow>
          \<lparr> v_device = device (hexRecord pair), v_timestamp = timestamp (hexRecord pair),
            v_hexData = hexData (hexRecord pair),
            v_decoded = None, actual = None, differences = None, matches = None,
            isAccurate = False, tolerance = None, v_error = Some e \<rparr>)"

definition validateDecodingAccuracy :: "source_record list \<Rightarrow> validation_result list" where
  "validateDecodingAccuracy allData = map compare_pair (validationPairs allData)"

section \<open>The validation summary (DecoderController.validateDecoding)\<close>

text \<open>\<open>accuracyRate\<close> is the string of \<open>toFixed(2)\<close>, printed before a percent sign.\<close>

record validation_summary =
  totalValidations :: nat
  accurateDecodings :: nat
  accuracyRate :: fixed_string

definition validateDecoding :: "validation_result list \<Rightarrow> validation_summary" where
  "validateDecoding validationResults =
     (let accurate = filter isAccurate validationResults;
          rate = js_mul (js_div (Fin (of_nat (length accurate)))
                                (Fin (of_nat (length validationResults)))) (Fin 100)
      in \<lparr> totalValidations = length validationResults,
           accurateDecodings = length accurate,
           accuracyRate = toFixed 2 rate \<rparr>)"

section \<open>The pairing in the words of the specification, and sample records\<close>

text \<open>
  The pairs of one record as the specification words them: a record carrying a hex
  payload is paired with the first record of the full set that qualifies, and is left
  out when there is none.
\<close>

definition spec_pair :: "source_record list \<Rightarrow> source_record \<Rightarrow> validation_pair list" where
  "spec_pair allData record =
     (if truthy (hexData record) then
        (case find (is_actual_for record) allData of
           Some found \<Rightarrow> [\<lparr> hexRecord = record, actualRecord = found \<rparr>]
         | None \<Rightarrow> [])
      else [])"

text \<open>
  Records of the device \<open>A\<close> for the examples: a hex payload (or none), a time value in
  whole milliseconds and ground-truth readings (or none).
\<close>

definition sample_record :: "js_value \<Rightarrow> int \<Rightarrow> decoded_reading option \<Rightarrow> source_record" where
  "sample_record hex ms gt =
     \<lparr> device = Some (of_ascii ''A''), timestamp = Fin (of_int ms), hexData = hex,
       gt_temperature = map_option temperature gt, gt_humidity = map_option humidity gt,
       gt_pressure = map_option pressure gt \<rparr>"

definition known_hex :: js_value where
  "known_hex = String (of_ascii ''0000e840cdccc7424a3e8044'')"

text \<open>The known payload with a space in it: 25 characters, 24 of them hex digits.\<close>

definition spaced_hex :: js_value where
  "spaced_hex = String (of_ascii ''0000e840 cdccc7424a3e8044'')"

text \<open>
  Payloads whose temperature is the binary32 value nearest to 0.01 and to 0.0101, with
  the humidity and pressure of the known payload.
\<close>

definition tolerance_hex :: js_value where
  "tolerance_hex = String (of_ascii ''0ad7233ccdccc7424a3e8044'')"

definition beyond_hex :: js_value where
  "beyond_hex = String (of_ascii ''787a253ccdccc7424a3e8044'')"

text \<open>A payload that is no hex string.\<close>

definition bad_hex :: js_value where
  "bad_hex = String (of_ascii ''zz'')"

text \<open>A difference is a match when its absolute value is at most the tolerance 0.01.\<close>

definition within_tolerance :: "js_number \<Rightarrow> bool" where
  "within_tolerance diff \<longleftrightarrow> js_le (js_abs diff) (js_lit (1 / 100))"

text \<open>
  The match on the exact values of the two numbers: both are finite and less than
  \<open>0.01 + 2^-60\<close> apart. The bound is the midpoint between the binary64 number 0.01,
  which is \<open>5764607523034235 / 2^59\<close>, and the next binary64 number above it.
\<close>

fun matches_exactly :: "js_number \<Rightarrow> js_number \<Rightarrow> bool" where
  "matches_exactly (Fin x) (Fin y) \<longleftrightarrow> \<bar>x - y\<bar> < 11529215046068471 / 1152921504606846976"
| "matches_exactly _ _ \<longleftrightarrow> False"

definition known_reading :: decoded_reading where
  "known_reading = \<lparr> temperature = js_lit (725 / 100), humidity = js_lit (999 / 10),
                      pressure = js_lit (10259465 / 10000) \<rparr>"

section \<open>Evaluation of numerals, strings and the known vector\<close>

lemma floor_rat_numeral [simp]:
  "\<lfloor>(numeral a / numeral b :: rat)\<rfloor> = numeral a div numeral b"
  by (metis floor_divide_of_int_eq of_int_numeral)

lemma ceiling_rat_numeral [simp]:
  "\<lceil>(numeral a / numeral b :: rat)\<rceil> = - ((- numeral a) div numeral b)"
  by (metis ceiling_def floor_divide_of_int_eq of_int_numeral of_int_minus minus_divide_left)

lemma of_ascii_Nil [simp]: "of_ascii [] = []"
  by (simp add: of_ascii_def)

lemma of_ascii_Cons [simp]: "of_ascii (c # cs) = of_nat (of_char c) # of_ascii cs"
  by (simp add: of_ascii_def)

lemma length_of_ascii [simp]: "length (of_ascii s) = length s"
  by (simp add: of_ascii_def)

lemma of_ascii_eq_Nil [simp]: "of_ascii s = [] \<longleftrightarrow> s = []"
  by (simp add: of_ascii_def)

lemma fixture_clean:
  "strip_whitespace (of_ascii ''0000e840cdccc7424a3e8044'') = of_ascii ''0000e840cdccc7424a3e8044''"
  by (simp add: strip_whitespace_def is_whitespace_def)

lemma fixture_hex: "is_hex_string (of_ascii ''0000e840cdccc7424a3e8044'')"
  by (simp add: is_hex_string_def is_hex_char_def hex_digit_def)

lemma fixture_buffer:
  "buffer_from_hex (of_ascii ''0000e840cdccc7424a3e8044'') =
     [0x00, 0x00, 0xe8, 0x40, 0xcd, 0xcc, 0xc7, 0x42, 0x4a, 0x3e, 0x80, 0x44]"
  by (simp add: hex_digit_def)

lemma fixture_read0:
  "readFloatLE [0x00, 0x00, 0xe8, 0x40, 0xcd, 0xcc, 0xc7, 0x42, 0x4a, 0x3e, 0x80, 0x44] 0 = Some (Fin (29 / 4))"
  by (simp add: readFloatLE_def float32_value_def power_int_def power_one_over)

lemma fixture_read4:
  "readFloatLE [0x00, 0x00, 0xe8, 0x40, 0xcd, 0xcc, 0xc7, 0x42, 0x4a, 0x3e, 0x80, 0x44] 4 = Some (Fin (13094093 / 131072))"
  by (simp add: readFloatLE_def float32_value_def power_int_def power_one_over)

lemma fixture_read8:
  "readFloatLE [0x00, 0x00, 0xe8, 0x40, 0xcd, 0xcc, 0xc7, 0x42, 0x4a, 0x3e, 0x80, 0x44] 8 = Some (Fin (4202277 / 4096))"
  by (simp add: readFloatLE_def float32_value_def power_int_def power_one_over)

lemma fixture_valid:
  "validateSensorValues (Fin (29 / 4)) (Fin (13094093 / 131072)) (Fin (4202277 / 4096)) = Inr ()"
  by (simp add: validateSensorValues_def isNaN_def js_gt_def)


lemma fixture_fixed:
  "map (toFixed 4) [Fin (29 / 4), Fin (13094093 / 131072), Fin (4202277 / 4096)] =
     [Digits False 72500, Digits False 999000, Digits False 10259465]"
  by simp

lemma fixture_decode:
  "decodeHexString (String (of_ascii ''0000e840cdccc7424a3e8044'')) =
     Inr \<lparr> temperature = js_lit (725 / 100), humidity = js_lit (999 / 10),
           pressure = js_lit (10259465 / 10000) \<rparr>"
  by (simp add: fixture_clean fixture_hex fixture_buffer decode_buffer_def fixture_read0
      fixture_read4 fixture_read8 fixture_valid js_lit_def Let_def del: of_ascii_Cons)

section \<open>Rounding to binary64\<close>

lemma floor_log2_le:
  assumes "0 < a"
  shows "2 powi (floor_log2 a) \<le> a"
proof (cases "1 \<le> a")
  case True
  define m where "m = \<lfloor>a\<rfloor>"
  have m1: "1 \<le> m" using True by (simp add: m_def le_floor_iff)
  then have b: "2 ^ nat (bitlen m - 1) \<le> m" using bitlen_bounds [of m] by simp
  have bl: "1 \<le> bitlen m" using m1 by (simp add: bitlen_alt_def)
  have "(2::rat) powi (bitlen m - 1) = 2 ^ nat (bitlen m - 1)"
    using bl by (simp add: power_int_def)
  also have "\<dots> = of_int (2 ^ nat (bitlen m - 1))" by simp
  also have "\<dots> \<le> of_int m" using b by (simp only: of_int_le_iff)
  also have "\<dots> \<le> a" by (simp add: m_def)
  finally show ?thesis using True by (simp add: floor_log2_def m_def)
next
  case False
  define c where "c = \<lceil>1 / a\<rceil>"
  define k where "k = bitlen (c - 1)"
  have "1 < 1 / a" using False assms by simp
  then have c2: "2 \<le> c" unfolding c_def by (simp add: le_ceiling_iff)
  then have "c - 1 < 2 ^ nat k" using bitlen_bounds [of "c - 1"] by (simp add: k_def)
  then have ck: "c \<le> 2 ^ nat k" by simp
  have k0: "0 \<le> k" by (simp add: k_def bitlen_nonneg)
  have "1 / a \<le> of_int c" by (simp add: c_def)
  also have "\<dots> \<le> of_int (2 ^ nat k)" using ck by (simp only: of_int_le_iff)
  finally have "1 / a \<le> 2 ^ nat k" by simp
  then have "1 \<le> a * 2 ^ nat k" using assms by (simp add: field_simps)
  then have "1 / 2 ^ nat k \<le> a" by (simp add: field_simps)
  moreover have "(2::rat) powi (- k) = 1 / 2 ^ nat k"
    using k0 by (simp add: power_int_def field_simps)
  ultimately show ?thesis using False by (simp add: floor_log2_def c_def k_def)
qed

lemma floor_log2_gt:
  assumes "0 < a"
  shows "a < 2 powi (floor_log2 a + 1)"
proof (cases "1 \<le> a")
  case True
  define m where "m = \<lfloor>a\<rfloor>"
  have m1: "1 \<le> m" using True by (simp add: m_def le_floor_iff)
  then have b: "m < 2 ^ nat (bitlen m)" using bitlen_bounds [of m] by simp
  then have b': "m + 1 \<le> 2 ^ nat (bitlen m)" by simp
  have "a < of_int (m + 1)" unfolding m_def by linarith
  also have "\<dots> \<le> of_int (2 ^ nat (bitlen m))" using b' by (simp only: of_int_le_iff)
  also have "\<dots> = 2 ^ nat (bitlen m)" by simp
  also have "\<dots> = (2::rat) powi (bitlen m)" by (simp add: power_int_def bitlen_nonneg)
  finally show ?thesis using True by (simp add: floor_log2_def m_def)
next
  case False
  define c where "c = \<lceil>1 / a\<rceil>"
  define k where "k = bitlen (c - 1)"
  have "1 < 1 / a" using False assms by simp
  then have c2: "2 \<le> c" unfolding c_def by (simp add: le_ceiling_iff)
  then have lo: "2 ^ nat (k - 1) \<le> c - 1" using bitlen_bounds [of "c - 1"] by (simp add: k_def)
  have k1: "1 \<le> k" using c2 by (simp add: k_def bitlen_alt_def)
  have "of_int (c - 1) < 1 / a" unfolding c_def by linarith
  moreover have "of_int (2 ^ nat (k - 1)) \<le> (of_int (c - 1) :: rat)"
    using lo by (simp only: of_int_le_iff)
  ultimately have "2 ^ nat (k - 1) < 1 / a" by simp
  then have "a * 2 ^ nat (k - 1) < 1" using assms by (simp add: field_simps)
  then have "a < 1 / 2 ^ nat (k - 1)" by (simp add: field_simps)
  moreover have "(2::rat) powi (- k + 1) = 1 / 2 ^ nat (k - 1)"
    using k1 by (simp add: power_int_def field_simps)
  ultimately show ?thesis using False by (simp add: floor_log2_def c_def k_def)
qed

lemma round_half_even_ge:
  assumes "of_int m \<le> x"
  shows "m \<le> round_half_even x"
proof -
  have "m \<le> \<lfloor>x\<rfloor>" using assms by (simp add: le_floor_iff)
  then show ?thesis by (auto simp: round_half_even_def Let_def)
qed

lemma round_half_even_le:
  assumes "x \<le> of_int m"
  shows "round_half_even x \<le> m"
proof (cases "x = of_int m")
  case True
  then show ?thesis by (simp add: round_half_even_def)
next
  case False
  then have "x < of_int m" using assms by simp
  then have "\<lfloor>x\<rfloor> < m" by (simp add: floor_less_iff)
  then show ?thesis by (auto simp: round_half_even_def Let_def)
qed

text \<open>The magnitude that \<open>round_binary64\<close> computes for a positive rational.\<close>

lemma round_binary64_nonzero:
  assumes "q \<noteq> 0"
  shows "round_binary64 q =
     (let u = 2 powi (max (floor_log2 \<bar>q\<bar>) (- 1022) - 52);
          r = of_int (round_half_even (\<bar>q\<bar> / u)) * u
      in if 2 powi 1024 \<le> r then Infinity (q < 0) else Fin (if q < 0 then - r else r))"
  using assms by (simp add: round_binary64_def Let_def)

lemma floor_log2_less:
  assumes "0 < a" "a < 2 powi k"
  shows "floor_log2 a < k"
proof (rule ccontr)
  assume "\<not> floor_log2 a < k"
  then have "k \<le> floor_log2 a" by simp
  then have "(2::rat) powi k \<le> 2 powi (floor_log2 a)"
    by (intro power_int_increasing) simp_all
  also have "\<dots> \<le> a" using assms(1) by (rule floor_log2_le)
  finally show False using assms(2) by simp
qed

lemma floor_log2_ge:
  assumes "0 < a" "2 powi k \<le> a"
  shows "k \<le> floor_log2 a"
proof (rule ccontr)
  assume "\<not> k \<le> floor_log2 a"
  then have "floor_log2 a + 1 \<le> k" by simp
  then have "(2::rat) powi (floor_log2 a + 1) \<le> 2 powi k"
    by (intro power_int_increasing) simp_all
  moreover have "a < 2 powi (floor_log2 a + 1)" using assms(1) by (rule floor_log2_gt)
  ultimately show False using assms(2) by simp
qed

text \<open>
  Below \<open>2^53\<close> the spacing of binary64 values is at most 1, so every integer is one
  of them and rounding does not cross an integer.
\<close>

lemma round_magnitude_ge:
  fixes a :: rat
  assumes "of_int m \<le> a"
  shows "of_int m \<le> (of_int (round_half_even (a * 2 ^ j)) / 2 ^ j :: rat)"
proof -
  have "of_int (m * 2 ^ j) \<le> a * 2 ^ j" using assms by simp
  then have "m * 2 ^ j \<le> round_half_even (a * 2 ^ j)" by (rule round_half_even_ge)
  then have "(of_int (m * 2 ^ j) :: rat) \<le> of_int (round_half_even (a * 2 ^ j))"
    by (simp only: of_int_le_iff)
  then show ?thesis by (simp add: field_simps)
qed

lemma round_magnitude_le:
  fixes a :: rat
  assumes "a \<le> of_int m"
  shows "(of_int (round_half_even (a * 2 ^ j)) / 2 ^ j :: rat) \<le> of_int m"
proof -
  have "a * 2 ^ j \<le> of_int (m * 2 ^ j)" using assms by simp
  then have "round_half_even (a * 2 ^ j) \<le> m * 2 ^ j" by (rule round_half_even_le)
  then have "(of_int (round_half_even (a * 2 ^ j)) :: rat) \<le> of_int (m * 2 ^ j)"
    by (simp only: of_int_le_iff)
  then show ?thesis by (simp add: field_simps)
qed

lemma round_binary64_int_bounds:
  assumes "\<bar>q\<bar> < 2 ^ 53"
  shows "\<exists>r. round_binary64 q = Fin r \<and>
           (\<forall>k::int. (of_int k \<le> q \<longrightarrow> of_int k \<le> r) \<and> (q \<le> of_int k \<longrightarrow> r \<le> of_int k))"
proof (cases "q = 0")
  case True
  then show ?thesis by (simp add: round_binary64_def)
next
  case False
  define a where "a = \<bar>q\<bar>"
  define e where "e = max (floor_log2 a) (- 1022)"
  define j where "j = nat (52 - e)"
  define r where "r = of_int (round_half_even (a * 2 ^ j)) / (2 ^ j :: rat)"
  have a0: "0 < a" using False by (simp add: a_def)
  have "a < 2 powi 53" using assms by (simp add: a_def)
  then have "floor_log2 a < 53" using a0 by (intro floor_log2_less)
  then have e52: "e \<le> 52" by (simp add: e_def)
  then have u: "(2::rat) powi (e - 52) = 1 / 2 ^ j"
    by (simp add: power_int_def j_def field_simps)
  have lo: "of_int m \<le> a \<Longrightarrow> of_int m \<le> r" and hi: "a \<le> of_int m \<Longrightarrow> r \<le> of_int m" for m
    unfolding r_def by (rule round_magnitude_ge, assumption) (rule round_magnitude_le, assumption)
  have "a \<le> of_int (2 ^ 53)" using assms by (simp add: a_def)
  then have "r \<le> of_int (2 ^ 53)" by (rule hi)
  then have fin: "\<not> 2 powi 1024 \<le> r" by simp
  have rb: "round_binary64 q = Fin (if q < 0 then - r else r)"
    using fin False unfolding round_binary64_nonzero [OF False]
    by (simp add: Let_def a_def [symmetric] e_def [symmetric] u r_def)
  show ?thesis
  proof (cases "q < 0")
    case True
    then have qa: "q = - a" by (simp add: a_def)
    have "of_int k \<le> q \<Longrightarrow> of_int k \<le> - r" for k
      using hi [of "- k"] by (simp add: qa)
    moreover have "q \<le> of_int k \<Longrightarrow> - r \<le> of_int k" for k
      using lo [of "- k"] by (simp add: qa)
    ultimately show ?thesis using rb True by simp
  next
    case False
    then have qa: "q = a" by (simp add: a_def)
    show ?thesis using rb False lo hi by (simp add: qa)
  qed
qed

lemma round_binary64_of_int:
  assumes "\<bar>z\<bar> < 2 ^ 53"
  shows "round_binary64 (of_int z) = Fin (of_int z)"
proof -
  have "\<bar>(of_int z :: rat)\<bar> < of_int (2 ^ 53)"
    using assms by (simp only: of_int_abs [symmetric] of_int_less_iff)
  then have "\<bar>(of_int z :: rat)\<bar> < 2 ^ 53" by simp
  from round_binary64_int_bounds [OF this]
  obtain r where r: "round_binary64 (of_int z) = Fin r"
    and b: "\<And>k::int. (of_int k \<le> (of_int z :: rat) \<longrightarrow> of_int k \<le> r) \<and>
                      ((of_int z :: rat) \<le> of_int k \<longrightarrow> r \<le> of_int k)"
    by blast
  from b [of z] have "r = of_int z" by simp
  with r show ?thesis by simp
qed

section \<open>The decoder's checks\<close>

lemma range_check_iff:
  "isNaN x \<or> js_lt x (Fin lo) \<or> js_gt x (Fin hi) \<longleftrightarrow> \<not> in_range lo hi x"
  by (cases x) (auto simp: isNaN_def js_gt_def)

lemma validateSensorValues_Inr_iff:
  "validateSensorValues t h p = Inr () \<longleftrightarrow>
     in_range (- 50) 85 t \<and> in_range 0 100 h \<and> in_range 300 1200 p"
  by (simp add: validateSensorValues_def range_check_iff)

lemma length_buffer_from_hex:
  "list_all is_hex_char s \<Longrightarrow> length (buffer_from_hex s) = length s div 2"
  by (induction s rule: buffer_from_hex.induct) (auto simp: is_hex_char_def)

lemma decode_buffer_12:
  assumes "length buf = 12"
  shows "(\<exists>d. decode_buffer buf = Inr d) \<or> (\<exists>vs. decode_buffer buf = Inl (InvalidSensorValues vs))"
proof -
  obtain t h p where "readFloatLE buf 0 = Some t" "readFloatLE buf 4 = Some h"
    "readFloatLE buf 8 = Some p"
    using assms by (simp add: readFloatLE_def)
  then show ?thesis
    by (cases "validateSensorValues t h p")
      (auto simp: decode_buffer_def validateSensorValues_def Let_def split: if_splits)
qed

lemma strip_abcd: "strip_whitespace (of_ascii ''ab cd'') = of_ascii ''abcd''"
  by (simp add: strip_whitespace_def is_whitespace_def)

lemma hex_abcd: "is_hex_string (of_ascii ''abcd'')"
  by (simp add: is_hex_string_def is_hex_char_def hex_digit_def)

lemma strip_zz: "strip_whitespace (of_ascii ''zz'') = of_ascii ''zz''"
  by (simp add: strip_whitespace_def is_whitespace_def)

lemma not_hex_zz: "\<not> is_hex_string (of_ascii ''zz'')"
  by (simp add: is_hex_string_def is_hex_char_def hex_digit_def)

lemma half_up_ge: "of_int m \<le> (y::rat) \<Longrightarrow> m \<le> \<lfloor>y + 1 / 2\<rfloor>"
  by (simp add: le_floor_iff)

lemma half_up_le: "(y::rat) \<le> of_int m \<Longrightarrow> \<lfloor>y + 1 / 2\<rfloor> \<le> m"
  by (simp add: floor_le_iff)

lemma fixed4_ge:
  fixes a :: rat
  assumes "of_int m \<le> a"
  shows "of_int m \<le> (of_int \<lfloor>a * 10 ^ 4 + 1 / 2\<rfloor> / 10 ^ 4 :: rat)"
proof -
  have "of_int (m * 10 ^ 4) \<le> a * 10 ^ 4" using assms by simp
  then have "m * 10 ^ 4 \<le> \<lfloor>a * 10 ^ 4 + 1 / 2\<rfloor>" by (rule half_up_ge)
  then have "(of_int (m * 10 ^ 4) :: rat) \<le> of_int \<lfloor>a * 10 ^ 4 + 1 / 2\<rfloor>"
    by (simp only: of_int_le_iff)
  then show ?thesis by (simp add: field_simps)
qed

lemma fixed4_le:
  fixes a :: rat
  assumes "a \<le> of_int m"
  shows "(of_int \<lfloor>a * 10 ^ 4 + 1 / 2\<rfloor> / 10 ^ 4 :: rat) \<le> of_int m"
proof -
  have "a * 10 ^ 4 \<le> of_int (m * 10 ^ 4)" using assms by simp
  then have "\<lfloor>a * 10 ^ 4 + 1 / 2\<rfloor> \<le> m * 10 ^ 4" by (rule half_up_le)
  then have "(of_int \<lfloor>a * 10 ^ 4 + 1 / 2\<rfloor> :: rat) \<le> of_int (m * 10 ^ 4)"
    by (simp only: of_int_le_iff)
  then show ?thesis by (simp add: field_simps)
qed

text \<open>
  Printing with four decimals and parsing the string back stays within integer bounds
  of magnitude below \<open>2^53\<close>.
\<close>

lemma toFixed_parse_in_range:
  assumes x: "in_range (of_int lo) (of_int hi) x"
    and lo: "\<bar>lo\<bar> < 2 ^ 53" and hi: "\<bar>hi\<bar> < 2 ^ 53"
  shows "in_range (of_int lo) (of_int hi) (parseFloat_fixed 4 (toFixed 4 x))"
proof -
  from x obtain v where v: "x = Fin v" "of_int lo \<le> v" "v \<le> of_int hi"
    by (cases x) auto
  define n where "n = \<lfloor>\<bar>v\<bar> * 10 ^ 4 + 1 / 2\<rfloor>"
  define d :: rat where "d = (if v < 0 then - 1 else 1) * of_int n / 10 ^ 4"
  have n0: "0 \<le> n" unfolding n_def by (simp add: le_floor_iff)
  have lo': "- (2 ^ 53) < (of_int lo :: rat)" and hi': "(of_int hi :: rat) < 2 ^ 53"
  proof -
    have "- (2 ^ 53) < lo" "hi < 2 ^ 53" using lo hi by auto
    then have "(of_int (- (2 ^ 53)) :: rat) < of_int lo" "(of_int hi :: rat) < of_int (2 ^ 53)"
      by (simp_all only: of_int_less_iff)
    then show "- (2 ^ 53) < (of_int lo :: rat)" "(of_int hi :: rat) < 2 ^ 53" by simp_all
  qed
  have small: "\<bar>v\<bar> < 10 ^ 21" using v lo' hi' by (auto simp: abs_if)
  have fx: "toFixed 4 x = Digits (v < 0) (nat n)"
    using small by (simp add: v n_def)
  have pf: "parseFloat_fixed 4 (toFixed 4 x) = round_binary64 d"
    using n0 by (simp add: fx d_def)
  have dlo: "of_int lo \<le> d" and dhi: "d \<le> of_int hi"
  proof -
    show "of_int lo \<le> d"
    proof (cases "v < 0")
      case True
      then have "\<bar>v\<bar> \<le> of_int (- lo)" using v by simp
      then have "of_int n / 10 ^ 4 \<le> (of_int (- lo) :: rat)" unfolding n_def by (rule fixed4_le)
      then show ?thesis using True by (simp add: d_def)
    next
      case False
      then have "of_int lo \<le> \<bar>v\<bar>" using v by simp
      then have "of_int lo \<le> (of_int n / 10 ^ 4 :: rat)" unfolding n_def by (rule fixed4_ge)
      then show ?thesis using False by (simp add: d_def)
    qed
    show "d \<le> of_int hi"
    proof (cases "v < 0")
      case True
      then have "of_int (- hi) \<le> \<bar>v\<bar>" using v by simp
      then have "(of_int (- hi) :: rat) \<le> of_int n / 10 ^ 4" unfolding n_def by (rule fixed4_ge)
      then show ?thesis using True by (simp add: d_def)
    next
      case False
      then have "\<bar>v\<bar> \<le> of_int hi" using v by simp
      then have "(of_int n / 10 ^ 4 :: rat) \<le> of_int hi" unfolding n_def by (rule fixed4_le)
      then show ?thesis using False by (simp add: d_def)
    qed
  qed
  have "\<bar>d\<bar> < 2 ^ 53" using dlo dhi lo' hi' by (auto simp: abs_if)
  from round_binary64_int_bounds [OF this]
  obtain r where r: "round_binary64 d = Fin r"
    and b: "\<And>k::int. (of_int k \<le> d \<longrightarrow> of_int k \<le> r) \<and> (d \<le> of_int k \<longrightarrow> r \<le> of_int k)"
    by blast
  from b [of lo] b [of hi] dlo dhi have "of_int lo \<le> r" "r \<le> of_int hi" by simp_all
  then show ?thesis by (simp add: pf r)
qed

lemma decodeHexString_Inr:
  assumes "decodeHexString v = Inr d"
  shows "\<exists>s. v = String s \<and> s \<noteq> [] \<and> is_hex_string (strip_whitespace s) \<and>
           length (strip_whitespace s) = 24 \<and>
           decode_buffer (buffer_from_hex (strip_whitespace s)) = Inr d"
  using assms by (cases v) (auto simp: Let_def split: if_splits)

lemma decode_buffer_Inr:
  assumes "decode_buffer buf = Inr d"
  shows "\<exists>t h p. readFloatLE buf 0 = Some t \<and> readFloatLE buf 4 = Some h \<and>
           readFloatLE buf 8 = Some p \<and> validateSensorValues t h p = Inr () \<and>
           d = \<lparr> temperature = parseFloat_fixed 4 (toFixed 4 t),
                 humidity = parseFloat_fixed 4 (toFixed 4 h),
                 pressure = parseFloat_fixed 4 (toFixed 4 p) \<rparr>"
  using assms by (auto simp: decode_buffer_def split: option.splits sum.splits)

section \<open>Pairing\<close>

lemma round_binary64_large:
  assumes "2 ^ 53 \<le> \<bar>q\<bar>"
  shows "\<not> js_lt (js_abs (round_binary64 q)) (Fin (2 ^ 53))"
proof -
  define a where "a = \<bar>q\<bar>"
  define fl where "fl = floor_log2 a"
  define u :: rat where "u = 2 powi (fl - 52)"
  define r where "r = of_int (round_half_even (a / u)) * u"
  have q0: "q \<noteq> 0" using assms by auto
  have a0: "0 < a" using q0 by (simp add: a_def)
  have "2 powi 53 \<le> a" using assms by (simp add: a_def)
  then have fl53: "53 \<le> fl" unfolding fl_def using a0 by (intro floor_log2_ge)
  then have e: "max fl (- 1022) = fl" by simp
  have u0: "0 < u" by (simp add: u_def)
  have "2 powi fl \<le> a" unfolding fl_def using a0 by (rule floor_log2_le)
  then have "2 powi fl / u \<le> a / u" using u0 by (simp add: divide_right_mono)
  moreover have "(2::rat) powi fl / u = 2 powi 52"
    by (simp add: u_def power_int_diff)
  ultimately have "of_int (2 ^ 52) \<le> a / u" by simp
  then have "2 ^ 52 \<le> round_half_even (a / u)" by (rule round_half_even_ge)
  then have "(of_int (2 ^ 52) :: rat) \<le> of_int (round_half_even (a / u))"
    by (simp only: of_int_le_iff)
  then have "of_int (2 ^ 52) * u \<le> r" using u0 by (simp add: r_def)
  moreover have "of_int (2 ^ 52) * u = 2 powi fl"
    by (simp add: u_def power_int_diff)
  moreover have "(2::rat) powi 53 \<le> 2 powi fl"
    using fl53 by (intro power_int_increasing) simp_all
  ultimately have r53: "2 ^ 53 \<le> r" by simp
  have "round_binary64 q = (if 2 powi 1024 \<le> r then Infinity (q < 0)
          else Fin (if q < 0 then - r else r))"
    unfolding round_binary64_nonzero [OF q0]
    by (simp add: Let_def a_def [symmetric] fl_def [symmetric] e u_def [symmetric] r_def)
  then show ?thesis using r53 by (auto simp: abs_if)
qed

text \<open>
  On time values that are whole milliseconds the test of the pairing window is the
  test on the integers.
\<close>

lemma time_window_int:
  "js_lt (js_abs (js_sub (Fin (of_int a)) (Fin (of_int b)))) (Fin 5000) \<longleftrightarrow> \<bar>a - b\<bar> < 5000"
proof (cases "\<bar>a - b\<bar> < 2 ^ 53")
  case True
  have "js_sub (Fin (of_int a)) (Fin (of_int b)) = round_binary64 (of_int (a - b))" by simp
  also have "\<dots> = Fin (of_int (a - b))" using True by (rule round_binary64_of_int)
  finally have "js_lt (js_abs (js_sub (Fin (of_int a)) (Fin (of_int b)))) (Fin 5000) \<longleftrightarrow>
      \<bar>(of_int (a - b) :: rat)\<bar> < of_int 5000" by simp
  also have "\<dots> \<longleftrightarrow> \<bar>a - b\<bar> < 5000"
    by (simp only: of_int_abs [symmetric] of_int_less_iff)
  finally show ?thesis .
next
  case False
  then have big: "2 ^ 53 \<le> \<bar>a - b\<bar>" by simp
  then have "(of_int (2 ^ 53) :: rat) \<le> of_int \<bar>a - b\<bar>" by (simp only: of_int_le_iff)
  then have "2 ^ 53 \<le> \<bar>(of_int a - of_int b :: rat)\<bar>" by simp
  then have n: "\<not> js_lt (js_abs (round_binary64 (of_int a - of_int b))) (Fin (2 ^ 53))"
    by (rule round_binary64_large)
  have "\<not> js_lt (js_abs (round_binary64 (of_int a - of_int b))) (Fin 5000)"
    using n by (cases "round_binary64 (of_int a - of_int b)") auto
  then show ?thesis using big by simp
qed

lemma pairing_loop_eq:
  "pairing_loop allData pairs rs = pairs @ concat (map (spec_pair allData) rs)"
  by (induction rs arbitrary: pairs) (auto simp: spec_pair_def split: option.splits)

lemma is_actual_for_sample:
  "is_actual_for (sample_record hex t' gt') (sample_record hex' t gt) \<longleftrightarrow>
     gt \<noteq> None \<and> \<bar>t - t'\<bar> < 5000"
  unfolding is_actual_for_def
  by (simp add: time_window_int sample_record_def del: js_sub.simps)

lemma hexData_sample [simp]: "hexData (sample_record hex t gt) = hex"
  by (simp add: sample_record_def)

lemma find_append_skip:
  "\<forall>x\<in>set xs. \<not> P x \<Longrightarrow> find P (xs @ ys) = find P ys"
  by (induction xs) auto

lemma find_Some_ex:
  assumes "x \<in> set xs" "P x"
  shows "\<exists>y. find P xs = Some y"
  using assms by (cases "find P xs") (auto simp: find_None_iff)

lemma is_actual_for_self:
  assumes "gt_temperature record \<noteq> None" "gt_humidity record \<noteq> None"
    "gt_pressure record \<noteq> None" "timestamp record = Fin t"
  shows "is_actual_for record record"
  using assms by (simp add: is_actual_for_def round_binary64_def)

lemma validationPairs_eq:
  "validationPairs allData = concat (map (spec_pair allData) allData)"
  by (simp add: validationPairs_def pairing_loop_eq)

lemma paired_if_found:
  assumes "record \<in> set allData" "truthy (hexData record)"
    "find (is_actual_for record) allData = Some found"
  shows "\<lparr> hexRecord = record, actualRecord = found \<rparr> \<in> set (validationPairs allData)"
proof -
  have "\<lparr> hexRecord = record, actualRecord = found \<rparr> \<in> set (spec_pair allData record)"
    using assms(2,3) by (simp add: spec_pair_def)
  then show ?thesis using assms(1) by (auto simp: validationPairs_eq)
qed

section \<open>Evaluation of the sample payloads and of number literals\<close>

lemmas binary64_unfold = round_binary64_def Let_def floor_log2_def

lemmas binary64_arith = power_int_def round_half_even_def power_one_over

lemma lit_725: "js_lit (29 / 4) = Fin (29 / 4)"
  by (simp add: js_lit_def binary64_unfold, simp add: compute_bitlen, simp add: binary64_arith)

lemma lit_999: "js_lit (999 / 10) = Fin (3514918771674317 / 35184372088832)"
  by (simp add: js_lit_def binary64_unfold, simp add: compute_bitlen, simp add: binary64_arith)

lemma lit_1025: "js_lit (2051893 / 2000) = Fin (564020053113045 / 549755813888)"
  by (simp add: js_lit_def binary64_unfold, simp add: compute_bitlen, simp add: binary64_arith)

lemma lit_tolerance: "js_lit (1 / 100) = Fin (5764607523034235 / 576460752303423488)"
  by (simp add: js_lit_def binary64_unfold, simp add: compute_bitlen, simp add: binary64_arith)

lemma lit_beyond: "js_lit (101 / 10000) = Fin (5822253598264577 / 576460752303423488)"
  by (simp add: js_lit_def binary64_unfold, simp add: compute_bitlen, simp add: binary64_arith)

lemma lit_minus_tolerance: "js_lit (- (1 / 100)) = Fin (- (5764607523034235 / 576460752303423488))"
  by (simp add: js_lit_def binary64_unfold, simp add: compute_bitlen, simp add: binary64_arith)

lemma lit_minus_beyond:
  "js_lit (- (101 / 10000)) = Fin (- (5822253598264577 / 576460752303423488))"
  by (simp add: js_lit_def binary64_unfold, simp add: compute_bitlen, simp add: binary64_arith)

lemma round_tolerance:
  "round_binary64 (5764607523034235 / 576460752303423488) = Fin (5764607523034235 / 576460752303423488)"
  by (simp add: binary64_unfold, simp add: compute_bitlen, simp add: binary64_arith)

lemma round_beyond:
  "round_binary64 (5822253598264577 / 576460752303423488) = Fin (5822253598264577 / 576460752303423488)"
  by (simp add: binary64_unfold, simp add: compute_bitlen, simp add: binary64_arith)

lemma round_25_2: "round_binary64 (25 / 2) = Fin (25 / 2)"
  by (simp add: binary64_unfold, simp add: compute_bitlen, simp add: binary64_arith)

lemmas decode_eval =
  strip_whitespace_def is_whitespace_def is_hex_string_def is_hex_char_def hex_digit_def
  decode_buffer_def readFloatLE_def float32_value_def power_int_def power_one_over
  validateSensorValues_def isNaN_def js_gt_def js_lit_def Let_def

lemma spaced_decode: "decodeHexString spaced_hex = Inr known_reading"
  by (simp add: spaced_hex_def known_reading_def decode_eval)

lemma known_decode: "decodeHexString known_hex = Inr known_reading"
  unfolding known_hex_def known_reading_def by (rule fixture_decode)

lemma tolerance_decode:
  "decodeHexString tolerance_hex = Inr (known_reading \<lparr> temperature := js_lit (1 / 100) \<rparr>)"
  by (simp add: tolerance_hex_def known_reading_def decode_eval)

lemma beyond_decode:
  "decodeHexString beyond_hex = Inr (known_reading \<lparr> temperature := js_lit (101 / 10000) \<rparr>)"
  by (simp add: beyond_hex_def known_reading_def decode_eval)

lemma bad_decode: "decodeHexString bad_hex = Inl InvalidFormat"
  unfolding bad_hex_def by (simp add: strip_zz not_hex_zz del: of_ascii_Cons)

lemma round_12: "round_binary64 12 = Fin 12"
  using round_binary64_of_int [of 12] by simp

lemma hexData_truthy_samples [simp]:
  "truthy known_hex" "truthy spaced_hex" "truthy tolerance_hex" "truthy beyond_hex"
  "truthy bad_hex"
  by (simp_all add: known_hex_def spaced_hex_def tolerance_hex_def beyond_hex_def bad_hex_def)

lemma fetchAndDecodeData_map:
  "fetchAndDecodeData data = map decode_record (filter (\<lambda>r. truthy (hexData r)) data)"
  by (simp add: fetchAndDecodeData_def Let_def)

lemma within_tolerance_zero: "within_tolerance (Fin 0)"
  by (simp add: within_tolerance_def lit_tolerance)

lemma js_sub_self: "js_sub (Fin a) (Fin a) = Fin 0"
  by (simp add: round_binary64_def)

lemma compare_known_self:
  "compare_pair \<lparr> hexRecord = sample_record known_hex t (Some known_reading),
                  actualRecord = sample_record hex' t' (Some known_reading) \<rparr> =
     \<lparr> v_device = Some (of_ascii ''A''), v_timestamp = Fin (of_int t), v_hexData = known_hex,
       v_decoded = Some known_reading, actual = Some known_reading,
       differences = Some \<lparr> temperature = Digits False 0, humidity = Digits False 0,
                            pressure = Digits False 0 \<rparr>,
       matches = Some \<lparr> temperature = True, humidity = True, pressure = True \<rparr>,
       isAccurate = True, tolerance = Some (js_lit (1 / 100)), v_error = None \<rparr>"
proof -
  have d: "js_sub (temperature known_reading) (temperature known_reading) = Fin 0"
    "js_sub (humidity known_reading) (humidity known_reading) = Fin 0"
    "js_sub (pressure known_reading) (pressure known_reading) = Fin 0"
    by (simp_all add: known_reading_def lit_725 lit_999 lit_1025 js_sub_self del: js_sub.simps)
  have a: "\<lparr> temperature = temperature known_reading, humidity = humidity known_reading,
             pressure = pressure known_reading \<rparr> = known_reading"
    by simp
  show ?thesis
    using within_tolerance_zero
    by (simp add: compare_pair_def sample_record_def known_decode d a Let_def within_tolerance_def
        del: js_sub.simps)
qed

lemma within_tolerance_boundary:
  "within_tolerance (js_lit (1 / 100))" "within_tolerance (js_lit (- (1 / 100)))"
  "\<not> within_tolerance (js_lit (101 / 10000))" "\<not> within_tolerance (js_lit (- (101 / 10000)))"
  by (simp_all add: within_tolerance_def lit_tolerance lit_minus_tolerance lit_beyond
      lit_minus_beyond)

lemma js_sub_zero_tolerance: "js_sub (js_lit (1 / 100)) (Fin 0) = js_lit (1 / 100)"
  by (simp add: lit_tolerance round_tolerance)

lemma js_sub_zero_beyond: "js_sub (js_lit (101 / 10000)) (Fin 0) = js_lit (101 / 10000)"
  by (simp add: lit_beyond round_beyond)

lemma js_sub_known:
  "js_sub (js_lit (999 / 10)) (js_lit (999 / 10)) = Fin 0"
  "js_sub (js_lit (2051893 / 2000)) (js_lit (2051893 / 2000)) = Fin 0"
  by (simp_all add: lit_999 lit_1025 js_sub_self del: js_sub.simps)

lemma toFixed_samples:
  "toFixed 4 (js_lit (1 / 100)) = Digits False 100"
  "toFixed 4 (js_lit (101 / 10000)) = Digits False 101"
  "toFixed 4 (Fin 0) = Digits False 0"
  by (simp_all add: lit_tolerance lit_beyond)

text \<open>
  The tolerance test is a test on binary64 values. The numbers 99.9 and 99.89 are not
  one hundredth apart: their difference is the binary64 value 0.010000000000005116,
  above the tolerance.
\<close>

lemma lit_9989: "js_lit (9989 / 100) = Fin (7029133855906857 / 70368744177664)"
  by (simp add: js_lit_def binary64_unfold, simp add: compute_bitlen, simp add: binary64_arith)

lemma round_difference:
  "round_binary64 (703687441777 / 70368744177664) = Fin (703687441777 / 70368744177664)"
  by (simp add: binary64_unfold, simp add: compute_bitlen, simp add: binary64_arith)

lemma decimal_hundredth_apart_beyond_tolerance:
  "\<not> within_tolerance (js_sub (js_lit (999 / 10)) (js_lit (9989 / 100)))"
  by (simp add: lit_999 lit_9989 round_difference within_tolerance_def lit_tolerance)

text \<open>
  The match is decided on the difference itself, the printed difference is only
  reported: for the decoded value 7.25 and the actual value 7.23996 the difference prints
  as 0.0100 and is above the tolerance.
\<close>

lemma lit_723996: "js_lit (180999 / 25000) = Fin (2037867572386081 / 281474976710656)"
  by (simp add: js_lit_def binary64_unfold, simp add: compute_bitlen, simp add: binary64_arith)

lemma round_reported:
  "round_binary64 (2826008766175 / 281474976710656) = Fin (2826008766175 / 281474976710656)"
  by (simp add: binary64_unfold, simp add: compute_bitlen, simp add: binary64_arith)

lemma reported_hundredth_beyond_tolerance:
  "toFixed 4 (js_sub (js_lit (725 / 100)) (js_lit (723996 / 100000))) = Digits False 100 \<and>
   \<not> within_tolerance (js_sub (js_lit (725 / 100)) (js_lit (723996 / 100000)))"
  by (simp add: lit_725 lit_723996 round_reported within_tolerance_def lit_tolerance)

section \<open>The tolerance test on exact values\<close>

text \<open>
  The binary64 number 0.01 has an odd significand, so a tie with the number above it
  rounds away from it: rounding gives at most 0.01 exactly below the midpoint.
\<close>

lemma round_half_even_le_odd:
  assumes "odd N"
  shows "round_half_even x \<le> N \<longleftrightarrow> x < of_int N + 1 / 2"
proof
  assume le: "round_half_even x \<le> N"
  show "x < of_int N + 1 / 2"
  proof (rule ccontr)
    assume "\<not> x < of_int N + 1 / 2"
    then have ge: "of_int N + 1 / 2 \<le> x" by simp
    then have "of_int N \<le> x" by simp
    then have fN: "N \<le> \<lfloor>x\<rfloor>" by (simp add: le_floor_iff)
    show False
    proof (cases "\<lfloor>x\<rfloor> = N")
      case True
      then have "1 / 2 \<le> x - of_int \<lfloor>x\<rfloor>" using ge by simp
      then have "round_half_even x = N + 1"
        using True assms by (auto simp: round_half_even_def Let_def)
      then show False using le by simp
    next
      case False
      then have "N < \<lfloor>x\<rfloor>" using fN by simp
      moreover have "\<lfloor>x\<rfloor> \<le> round_half_even x"
        by (auto simp: round_half_even_def Let_def)
      ultimately show False using le by simp
    qed
  qed
next
  assume lt: "x < of_int N + 1 / 2"
  then have "x < of_int N + 1" by simp
  then have fN: "\<lfloor>x\<rfloor> \<le> N" by (simp add: floor_le_iff)
  show "round_half_even x \<le> N"
  proof (cases "\<lfloor>x\<rfloor> = N")
    case True
    then have "x - of_int \<lfloor>x\<rfloor> < 1 / 2" using lt by simp
    then show ?thesis using True by (auto simp: round_half_even_def Let_def)
  next
    case False
    then have "\<lfloor>x\<rfloor> + 1 \<le> N" using fN by simp
    moreover have "round_half_even x \<le> \<lfloor>x\<rfloor> + 1"
      by (auto simp: round_half_even_def Let_def)
    ultimately show ?thesis by simp
  qed
qed

lemma tolerance_threshold:
  "js_le (js_abs (round_binary64 q)) (Fin (5764607523034235 / 576460752303423488)) \<longleftrightarrow>
     \<bar>q\<bar> < 11529215046068471 / 1152921504606846976"
proof (cases "q = 0")
  case True
  then show ?thesis by (simp add: round_binary64_def)
next
  case False
  define c :: rat where "c = 5764607523034235 / 576460752303423488"
  define a where "a = \<bar>q\<bar>"
  define fl where "fl = floor_log2 a"
  define e where "e = max fl (- 1022)"
  define u :: rat where "u = 2 powi (e - 52)"
  define r where "r = of_int (round_half_even (a / u)) * u"
  have a0: "0 < a" using False by (simp add: a_def)
  have u0: "0 < u" by (simp add: u_def)
  have "of_int 0 \<le> a / u" using a0 u0 by simp
  then have "0 \<le> round_half_even (a / u)" by (rule round_half_even_ge)
  then have r0: "0 \<le> r" using u0 by (simp add: r_def)
  have rb: "round_binary64 q = (if 2 powi 1024 \<le> r then Infinity (q < 0)
          else Fin (if q < 0 then - r else r))"
    unfolding round_binary64_nonzero [OF False]
    by (simp add: Let_def a_def [symmetric] fl_def [symmetric] e_def [symmetric]
        u_def [symmetric] r_def)
  have c1: "c < 2 powi 1024"
  proof -
    have "c < 1" by (simp add: c_def)
    also have "(1::rat) \<le> 2 powi 1024" by (rule one_le_power_int) simp_all
    finally show ?thesis .
  qed
  have key: "js_le (js_abs (round_binary64 q)) (Fin c) \<longleftrightarrow> r \<le> c"
    using rb r0 c1 by (auto simp: abs_if)
  have fl_lo: "2 powi fl \<le> a" unfolding fl_def using a0 by (rule floor_log2_le)
  consider (small) "a < 2 powi (- 7)" | (binade) "2 powi (- 7) \<le> a" "a < 2 powi (- 6)"
    | (large) "2 powi (- 6) \<le> a" by linarith
  then have "r \<le> c \<longleftrightarrow> a < 11529215046068471 / 1152921504606846976"
  proof cases
    case small
    then have "fl < - 7" unfolding fl_def using a0 by (intro floor_log2_less)
    then have e8: "e \<le> - 8" by (simp add: e_def)
    define j where "j = nat (45 - e)"
    have pj: "(2::rat) powi (45 - e) = 2 ^ j" using e8 by (simp add: power_int_def j_def)
    have "(2::rat) powi (45 - e) * 2 powi (e - 52) = 2 powi (- 7)"
      using power_int_add [of "2::rat" "45 - e" "e - 52"] by simp
    then have bound: "of_int (2 ^ j) * u = 2 powi (- 7)" by (simp add: u_def pj)
    have "a \<le> of_int (2 ^ j) * u" using small bound by simp
    then have "a / u \<le> of_int (2 ^ j)" using u0 by (simp add: field_simps)
    then have "round_half_even (a / u) \<le> 2 ^ j" by (rule round_half_even_le)
    then have "(of_int (round_half_even (a / u)) :: rat) \<le> of_int (2 ^ j)"
      by (simp only: of_int_le_iff)
    then have "r \<le> of_int (2 ^ j) * u" using u0 by (simp add: r_def)
    then have "r \<le> 2 powi (- 7)" using bound by simp
    moreover have "(2::rat) powi (- 7) \<le> c" by (simp add: c_def power_int_def power_one_over)
    moreover have "(2::rat) powi (- 7) < 11529215046068471 / 1152921504606846976"
      by (simp add: power_int_def power_one_over)
    ultimately show ?thesis using small by simp
  next
    case binade
    have "- 7 \<le> fl" unfolding fl_def using a0 binade(1) by (intro floor_log2_ge)
    moreover have "fl < - 6" unfolding fl_def using a0 binade(2) by (intro floor_log2_less)
    ultimately have e7: "e = - 7" by (simp add: e_def)
    have u59: "u = 1 / 2 ^ 59" by (simp add: u_def e7 power_int_def power_one_over)
    have r59: "r = of_int (round_half_even (a * 2 ^ 59)) / 2 ^ 59" by (simp add: r_def u59)
    have "r \<le> c \<longleftrightarrow>
        (of_int (round_half_even (a * 2 ^ 59)) :: rat) \<le> of_int 5764607523034235"
      by (simp add: r59 c_def field_simps)
    also have "\<dots> \<longleftrightarrow> round_half_even (a * 2 ^ 59) \<le> 5764607523034235"
      by (simp only: of_int_le_iff)
    also have "\<dots> \<longleftrightarrow> a * 2 ^ 59 < of_int 5764607523034235 + 1 / 2"
      by (rule round_half_even_le_odd) simp
    also have "\<dots> \<longleftrightarrow> a < 11529215046068471 / 1152921504606846976"
      by (simp add: field_simps)
    finally show ?thesis .
  next
    case large
    then have fl6: "- 6 \<le> fl" unfolding fl_def using a0 by (intro floor_log2_ge)
    then have e: "e = fl" by (simp add: e_def)
    have "2 powi fl / u \<le> a / u" using fl_lo u0 by (simp add: divide_right_mono)
    moreover have "(2::rat) powi fl / u = 2 powi 52" by (simp add: u_def e power_int_diff)
    ultimately have "of_int (2 ^ 52) \<le> a / u" by simp
    then have "2 ^ 52 \<le> round_half_even (a / u)" by (rule round_half_even_ge)
    then have "(of_int (2 ^ 52) :: rat) \<le> of_int (round_half_even (a / u))"
      by (simp only: of_int_le_iff)
    then have "of_int (2 ^ 52) * u \<le> r" using u0 by (simp add: r_def)
    moreover have "of_int (2 ^ 52) * u = 2 powi fl" by (simp add: u_def e power_int_diff)
    moreover have "(2::rat) powi (- 6) \<le> 2 powi fl"
      using fl6 by (intro power_int_increasing) simp_all
    ultimately have "2 powi (- 6) \<le> r" by simp
    moreover have "c < 2 powi (- 6)" by (simp add: c_def power_int_def power_one_over)
    moreover have "(11529215046068471 / 1152921504606846976 :: rat) < 2 powi (- 6)"
      by (simp add: power_int_def power_one_over)
    ultimately show ?thesis using large by simp
  qed
  then show ?thesis using key by (simp add: c_def a_def)
qed

lemma within_tolerance_sub:
  "within_tolerance (js_sub x y) \<longleftrightarrow> matches_exactly x y"
proof (cases x)
  case (Fin a)
  show ?thesis
  proof (cases y)
    case (Fin b)
    show ?thesis
      using tolerance_threshold [of "a - b"]
      by (simp add: \<open>x = Fin a\<close> Fin within_tolerance_def lit_tolerance)
  qed (simp_all add: \<open>x = Fin a\<close> within_tolerance_def lit_tolerance)
next
  case NaN
  then show ?thesis by (simp add: within_tolerance_def)
next
  case (Infinity n)
  then show ?thesis by (cases y) (simp_all add: within_tolerance_def lit_tolerance)
qed

lemma compare_hundredth_apart:
  "compare_pair \<lparr> hexRecord = sample_record known_hex 0 None,
                  actualRecord = sample_record Undefined 0
                    (Some (known_reading \<lparr> humidity := js_lit (9989 / 100) \<rparr>)) \<rparr> =
     \<lparr> v_device = Some (of_ascii ''A''), v_timestamp = Fin 0, v_hexData = known_hex,
       v_decoded = Some known_reading,
       actual = Some (known_reading \<lparr> humidity := js_lit (9989 / 100) \<rparr>),
       differences = Some \<lparr> temperature = Digits False 0, humidity = Digits False 100,
                            pressure = Digits False 0 \<rparr>,
       matches = Some \<lparr> temperature = True, humidity = False, pressure = True \<rparr>,
       isAccurate = False, tolerance = Some (js_lit (1 / 100)), v_error = None \<rparr>"
proof -
  have d: "js_sub (temperature known_reading) (temperature known_reading) = Fin 0"
    "js_sub (pressure known_reading) (pressure known_reading) = Fin 0"
    "js_sub (humidity known_reading) (js_lit (9989 / 100)) =
       Fin (703687441777 / 70368744177664)"
    by (simp_all add: known_reading_def lit_725 lit_999 lit_1025 lit_9989 round_difference
        js_sub_self del: js_sub.simps)
      (simp add: round_difference)
  have f: "toFixed 4 (Fin (703687441777 / 70368744177664)) = Digits False 100"
    "toFixed 4 (Fin 0) = Digits False 0"
    by simp_all
  have m: "\<not> js_le (js_abs (Fin (703687441777 / 70368744177664))) (js_lit (1 / 100))"
    "js_le (js_abs (Fin 0)) (js_lit (1 / 100))"
    by (simp_all add: lit_tolerance)
  show ?thesis
    by (simp add: compare_pair_def sample_record_def known_decode d f m Let_def
        del: js_sub.simps toFixed.simps js_le.simps js_abs.simps)
qed

section \<open>The claims\<close>

text \<open>
  C1. The literal input \<open>0000e840cdccc7424a3e8044\<close> decodes successfully to
  temperature 7.25, humidity 99.9 and pressure 1025.9465 (the numbers these decimal
  literals denote). The payload has the three binary32 readings \<open>29/4\<close>,
  \<open>13094093/131072\<close> and \<open>4202277/4096\<close> at the byte offsets 0, 4 and 8, least significant
  byte first, and \<open>toFixed(4)\<close> prints them as 7.2500, 99.9000 and 1025.9465.
\<close>

theorem C1_known_vector:
  "decodeHexString (String (of_ascii ''0000e840cdccc7424a3e8044'')) =
     Inr \<lparr> temperature = js_lit (725 / 100), humidity = js_lit (999 / 10),
           pressure = js_lit (10259465 / 10000) \<rparr> \<and>
   map (readFloatLE (buffer_from_hex (strip_whitespace (of_ascii ''0000e840cdccc7424a3e8044''))))
       [0, 4, 8] =
     [Some (Fin (29 / 4)), Some (Fin (13094093 / 131072)), Some (Fin (4202277 / 4096))] \<and>
   map (toFixed 4) [Fin (29 / 4), Fin (13094093 / 131072), Fin (4202277 / 4096)] =
     [Digits False 72500, Digits False 999000, Digits False 10259465]"
  using fixture_decode fixture_fixed
  by (simp add: fixture_clean fixture_buffer fixture_read0 fixture_read4 fixture_read8
      del: of_ascii_Cons decodeHexString.simps toFixed.simps)

text \<open>
  C2, as the claim states it, fails: the input \<open>zz\<close> has a stripped form of length 2,
  not 24, and the decoder rejects it for its format, before it looks at the length.
\<close>

theorem C2_counterexample:
  "length (strip_whitespace (of_ascii ''zz'')) \<noteq> 24 \<and>
   decodeHexString (String (of_ascii ''zz'')) = Inl InvalidFormat"
  by (simp add: strip_zz not_hex_zz del: of_ascii_Cons)

text \<open>
  C2, amended. The format check comes first. An input whose stripped form is a
  non-empty string of hex digits of a length other than 24 fails with the length error,
  which carries the expected length 24 and the length of the stripped form. A non-empty
  input whose stripped form is empty or has a character that is no hex digit fails with
  the format error, whatever its length. An input whose stripped form has 24 characters,
  all hex digits, is decoded or fails the range validation: it never fails on length or
  format grounds. The empty string is refused as no hex string at all.
\<close>

theorem C2_length_after_format:
  "(is_hex_string (strip_whitespace hexString) \<and> length (strip_whitespace hexString) \<noteq> 24 \<longrightarrow>
      decodeHexString (String hexString) =
        Inl (InvalidLength 24 (length (strip_whitespace hexString)))) \<and>
   (hexString \<noteq> [] \<and> \<not> is_hex_string (strip_whitespace hexString) \<longrightarrow>
      decodeHexString (String hexString) = Inl InvalidFormat) \<and>
   (list_all is_hex_char (strip_whitespace hexString) \<and> length (strip_whitespace hexString) = 24 \<longrightarrow>
      (\<exists>d. decodeHexString (String hexString) = Inr d) \<or>
      (\<exists>vs. decodeHexString (String hexString) = Inl (InvalidSensorValues vs))) \<and>
   decodeHexString (String []) = Inl InvalidHexString"
proof (intro conjI impI)
  show "decodeHexString (String []) = Inl InvalidHexString" by simp
next
  assume a: "is_hex_string (strip_whitespace hexString) \<and> length (strip_whitespace hexString) \<noteq> 24"
  then have "hexString \<noteq> []" by (auto simp: is_hex_string_def strip_whitespace_def)
  with a show "decodeHexString (String hexString) =
      Inl (InvalidLength 24 (length (strip_whitespace hexString)))"
    by (simp add: Let_def)
next
  assume "hexString \<noteq> [] \<and> \<not> is_hex_string (strip_whitespace hexString)"
  then show "decodeHexString (String hexString) = Inl InvalidFormat"
    by (simp add: Let_def)
next
  assume a: "list_all is_hex_char (strip_whitespace hexString) \<and> length (strip_whitespace hexString) = 24"
  then have ne: "strip_whitespace hexString \<noteq> []" by auto
  then have "hexString \<noteq> []" by (auto simp: strip_whitespace_def)
  moreover have "is_hex_string (strip_whitespace hexString)"
    using a ne by (simp add: is_hex_string_def)
  moreover have "length (buffer_from_hex (strip_whitespace hexString)) = 12"
    using a by (simp add: length_buffer_from_hex)
  ultimately show "(\<exists>d. decodeHexString (String hexString) = Inr d) \<or>
      (\<exists>vs. decodeHexString (String hexString) = Inl (InvalidSensorValues vs))"
    using a decode_buffer_12 [of "buffer_from_hex (strip_whitespace hexString)"]
    by (simp add: Let_def)
qed

theorem C2_length_after_format_witness:
  "decodeHexString (String (of_ascii ''ab cd'')) = Inl (InvalidLength 24 4) \<and>
   decodeHexString (String (of_ascii ''zz'')) = Inl InvalidFormat \<and>
   ((\<exists>d. decodeHexString (String (of_ascii ''0000e840cdccc7424a3e8044'')) = Inr d) \<or>
    (\<exists>vs. decodeHexString (String (of_ascii ''0000e840cdccc7424a3e8044'')) =
       Inl (InvalidSensorValues vs)))"
proof (intro conjI)
  show "decodeHexString (String (of_ascii ''ab cd'')) = Inl (InvalidLength 24 4)"
    using C2_length_after_format [of "of_ascii ''ab cd''"]
    by (simp add: strip_abcd hex_abcd del: of_ascii_Cons decodeHexString.simps)
  show "decodeHexString (String (of_ascii ''zz'')) = Inl InvalidFormat"
    using C2_length_after_format [of "of_ascii ''zz''"]
    by (simp add: strip_zz not_hex_zz del: of_ascii_Cons decodeHexString.simps)
  have "list_all is_hex_char (of_ascii ''0000e840cdccc7424a3e8044'')"
    using fixture_hex by (simp add: is_hex_string_def del: of_ascii_Cons)
  then show "(\<exists>d. decodeHexString (String (of_ascii ''0000e840cdccc7424a3e8044'')) = Inr d) \<or>
    (\<exists>vs. decodeHexString (String (of_ascii ''0000e840cdccc7424a3e8044'')) =
       Inl (InvalidSensorValues vs))"
    using C2_length_after_format [of "of_ascii ''0000e840cdccc7424a3e8044''"]
    by (simp add: fixture_clean del: of_ascii_Cons decodeHexString.simps)
qed

text \<open>
  C3 fails on the code: the summary divides by the number of results without a guard.
  For an empty record set there are no validation results and the accuracy rate is the
  string of \<open>NaN\<close>.
\<close>

theorem C3_empty_summary:
  "validateDecodingAccuracy [] = [] \<and>
   validateDecoding (validateDecodingAccuracy []) =
     \<lparr> totalValidations = 0, accurateDecodings = 0, accuracyRate = ToString NaN \<rparr>"
  by (simp add: validateDecodingAccuracy_def validationPairs_def validateDecoding_def)

text \<open>
  C4. Range validation looks at all three fields and gathers every one that is not a
  finite number within its inclusive range (temperature \<open>[-50, 85]\<close>, humidity
  \<open>[0, 100]\<close>, pressure \<open>[300, 1200]\<close>; \<open>NaN\<close> and the infinities are outside every
  range) into one failure that lists them all, in field order, each with its value. It
  fails exactly when at least one field is outside its range.
\<close>

theorem C4_collects_all_violations:
  "validateSensorValues t h p =
     (let vs = filter violates [(Temperature, t), (Humidity, h), (Pressure, p)]
      in if vs = [] then Inr () else Inl (InvalidSensorValues vs))"
  by (simp add: validateSensorValues_def range_check_iff violates_def)

theorem C4_collects_all_violations_witness:
  "validateSensorValues (Fin 200) NaN (Fin 1000) =
     Inl (InvalidSensorValues [(Temperature, Fin 200), (Humidity, NaN)])"
  using C4_collects_all_violations [of "Fin 200" NaN "Fin 1000"]
  by (simp add: violates_def)

text \<open>
  C5. Whenever \<open>decodeHexString\<close> succeeds, each returned value (after the rounding to
  four decimals) is a finite number within the inclusive range of its field. The three
  binary32 readings of the payload were themselves finite and within range, and the
  result is their rounding: a reading out of range or not finite makes the decoding
  fail, it is never clamped.
\<close>

theorem C5_decoded_within_ranges:
  assumes "decodeHexString v = Inr d"
  shows "field_ok Temperature (temperature d) \<and> field_ok Humidity (humidity d) \<and>
         field_ok Pressure (pressure d) \<and>
         (\<exists>s t h p. v = String s \<and>
            readFloatLE (buffer_from_hex (strip_whitespace s)) 0 = Some t \<and>
            readFloatLE (buffer_from_hex (strip_whitespace s)) 4 = Some h \<and>
            readFloatLE (buffer_from_hex (strip_whitespace s)) 8 = Some p \<and>
            field_ok Temperature t \<and> field_ok Humidity h \<and> field_ok Pressure p \<and>
            d = \<lparr> temperature = parseFloat_fixed 4 (toFixed 4 t),
                  humidity = parseFloat_fixed 4 (toFixed 4 h),
                  pressure = parseFloat_fixed 4 (toFixed 4 p) \<rparr>)"
proof -
  from decodeHexString_Inr [OF assms] obtain s where s: "v = String s"
    and buf: "decode_buffer (buffer_from_hex (strip_whitespace s)) = Inr d" by blast
  from decode_buffer_Inr [OF buf] obtain t h p where
    rd: "readFloatLE (buffer_from_hex (strip_whitespace s)) 0 = Some t"
        "readFloatLE (buffer_from_hex (strip_whitespace s)) 4 = Some h"
        "readFloatLE (buffer_from_hex (strip_whitespace s)) 8 = Some p"
    and ok: "validateSensorValues t h p = Inr ()"
    and d: "d = \<lparr> temperature = parseFloat_fixed 4 (toFixed 4 t),
                 humidity = parseFloat_fixed 4 (toFixed 4 h),
                 pressure = parseFloat_fixed 4 (toFixed 4 p) \<rparr>" by blast
  from ok have raw: "in_range (- 50) 85 t" "in_range 0 100 h" "in_range 300 1200 p"
    by (simp_all add: validateSensorValues_Inr_iff)
  have "in_range (of_int (- 50)) (of_int 85) (parseFloat_fixed 4 (toFixed 4 t))"
    by (rule toFixed_parse_in_range) (use raw in simp_all)
  moreover have "in_range (of_int 0) (of_int 100) (parseFloat_fixed 4 (toFixed 4 h))"
    by (rule toFixed_parse_in_range) (use raw in simp_all)
  moreover have "in_range (of_int 300) (of_int 1200) (parseFloat_fixed 4 (toFixed 4 p))"
    by (rule toFixed_parse_in_range) (use raw in simp_all)
  ultimately have "field_ok Temperature (temperature d)" "field_ok Humidity (humidity d)"
    "field_ok Pressure (pressure d)" by (simp_all add: d)
  then show ?thesis using s rd raw d by auto
qed

theorem C5_decoded_within_ranges_witness:
  "decodeHexString (String (of_ascii ''0000e840cdccc7424a3e8044'')) =
     Inr \<lparr> temperature = js_lit (725 / 100), humidity = js_lit (999 / 10),
           pressure = js_lit (10259465 / 10000) \<rparr> \<and>
   field_ok Temperature (js_lit (725 / 100)) \<and> field_ok Humidity (js_lit (999 / 10)) \<and>
   field_ok Pressure (js_lit (10259465 / 10000))"
  using C5_decoded_within_ranges [OF fixture_decode] fixture_decode
  by (simp del: of_ascii_Cons decodeHexString.simps field_ok.simps)



text \<open>
  C7, as the claim states it, fails. For the decoded humidity 99.9 (the known payload)
  and the actual humidity 99.89 the difference is reported as 0.0100, a value within the
  tolerance, and yet the field is declared no match and the pair not accurate: the match
  is decided on the binary64 difference before it is printed, and that is
  0.010000000000005116.
\<close>

theorem C7_counterexample:
  "differences (compare_pair \<lparr> hexRecord = sample_record known_hex 0 None,
                  actualRecord = sample_record Undefined 0
                    (Some (known_reading \<lparr> humidity := js_lit (9989 / 100) \<rparr>)) \<rparr>) =
     Some \<lparr> temperature = Digits False 0, humidity = Digits False 100,
            pressure = Digits False 0 \<rparr> \<and>
   within_tolerance (parseFloat_fixed 4 (Digits False 100)) \<and>
   matches (compare_pair \<lparr> hexRecord = sample_record known_hex 0 None,
                  actualRecord = sample_record Undefined 0
                    (Some (known_reading \<lparr> humidity := js_lit (9989 / 100) \<rparr>)) \<rparr>) =
     Some \<lparr> temperature = True, humidity = False, pressure = True \<rparr> \<and>
   \<not> isAccurate (compare_pair \<lparr> hexRecord = sample_record known_hex 0 None,
                  actualRecord = sample_record Undefined 0
                    (Some (known_reading \<lparr> humidity := js_lit (9989 / 100) \<rparr>)) \<rparr>)"
proof -
  have "round_binary64 (1 / 100) = js_lit (1 / 100)" by (simp add: js_lit_def)
  then have "within_tolerance (parseFloat_fixed 4 (Digits False 100))"
    using within_tolerance_boundary(1) by simp
  then show ?thesis by (simp add: compare_hundredth_apart)
qed

text \<open>
  C7, amended. For a pair whose hex side decodes, the comparison takes the ground-truth
  values, reports for each field the binary64 difference decoded - actual printed with
  four decimals, and declares the field a match exactly when the absolute value of that
  difference, not of the printed one, is at most the number 0.01: that is, when both
  values are finite and their exact difference is below \<open>0.01 + 2^-60\<close>.
  \<open>isAccurate\<close> is the conjunction of the three matches. A difference that is the number
  0.01 (or -0.01) is a match, one that is 0.0101 (or -0.0101) is not.
\<close>

theorem C7_match_on_unrounded_difference:
  assumes "decodeHexString (hexData (hexRecord pair)) = Inr d"
  shows "(let a = \<lparr> temperature = parseFloat_field (gt_temperature (actualRecord pair)),
                    humidity = parseFloat_field (gt_humidity (actualRecord pair)),
                    pressure = parseFloat_field (gt_pressure (actualRecord pair)) \<rparr>
          in compare_pair pair =
               \<lparr> v_device = device (hexRecord pair), v_timestamp = timestamp (hexRecord pair),
                 v_hexData = hexData (hexRecord pair), v_decoded = Some d, actual = Some a,
                 differences = Some
                   \<lparr> temperature = toFixed 4 (js_sub (temperature d) (temperature a)),
                     humidity = toFixed 4 (js_sub (humidity d) (humidity a)),
                     pressure = toFixed 4 (js_sub (pressure d) (pressure a)) \<rparr>,
                 matches = Some
                   \<lparr> temperature = matches_exactly (temperature d) (temperature a),
                     humidity = matches_exactly (humidity d) (humidity a),
                     pressure = matches_exactly (pressure d) (pressure a) \<rparr>,
                 isAccurate = (matches_exactly (temperature d) (temperature a) \<and>
                               matches_exactly (humidity d) (humidity a) \<and>
                               matches_exactly (pressure d) (pressure a)),
                 tolerance = Some (js_lit (1 / 100)), v_error = None \<rparr>) \<and>
         (matches_exactly x y \<longleftrightarrow> js_le (js_abs (js_sub x y)) (js_lit (1 / 100))) \<and>
         (js_sub x y = js_lit (1 / 100) \<or> js_sub x y = js_lit (- (1 / 100)) \<longrightarrow>
            matches_exactly x y) \<and>
         (js_sub x y = js_lit (101 / 10000) \<or> js_sub x y = js_lit (- (101 / 10000)) \<longrightarrow>
            \<not> matches_exactly x y)"
proof -
  have eq: "js_le (js_abs (js_sub u v)) (js_lit (1 / 100)) \<longleftrightarrow> matches_exactly u v" for u v
    using within_tolerance_sub [of u v] by (simp add: within_tolerance_def)
  have b1: "js_sub x y = js_lit (1 / 100) \<or> js_sub x y = js_lit (- (1 / 100)) \<longrightarrow>
      matches_exactly x y"
    using within_tolerance_boundary(1,2) within_tolerance_sub [of x y] by auto
  have b2: "js_sub x y = js_lit (101 / 10000) \<or> js_sub x y = js_lit (- (101 / 10000)) \<longrightarrow>
      \<not> matches_exactly x y"
    using within_tolerance_boundary(3,4) within_tolerance_sub [of x y] by auto
  have c: "(let a = \<lparr> temperature = parseFloat_field (gt_temperature (actualRecord pair)),
                    humidity = parseFloat_field (gt_humidity (actualRecord pair)),
                    pressure = parseFloat_field (gt_pressure (actualRecord pair)) \<rparr>
          in compare_pair pair =
               \<lparr> v_device = device (hexRecord pair), v_timestamp = timestamp (hexRecord pair),
                 v_hexData = hexData (hexRecord pair), v_decoded = Some d, actual = Some a,
                 differences = Some
                   \<lparr> temperature = toFixed 4 (js_sub (temperature d) (temperature a)),
                     humidity = toFixed 4 (js_sub (humidity d) (humidity a)),
                     pressure = toFixed 4 (js_sub (pressure d) (pressure a)) \<rparr>,
                 matches = Some
                   \<lparr> temperature = matches_exactly (temperature d) (temperature a),
                     humidity = matches_exactly (humidity d) (humidity a),
                     pressure = matches_exactly (pressure d) (pressure a) \<rparr>,
                 isAccurate = (matches_exactly (temperature d) (temperature a) \<and>
                               matches_exactly (humidity d) (humidity a) \<and>
                               matches_exactly (pressure d) (pressure a)),
                 tolerance = Some (js_lit (1 / 100)), v_error = None \<rparr>)"
    using assms
    by (simp add: compare_pair_def Let_def eq
        del: js_sub.simps toFixed.simps js_le.simps js_abs.simps matches_exactly.simps)
  from c eq [of x y] b1 b2 show ?thesis by (intro conjI) simp_all
qed

theorem C7_match_on_unrounded_difference_witness:
  "compare_pair \<lparr> hexRecord = sample_record tolerance_hex 0 None,
                  actualRecord = sample_record Undefined 0
                    (Some (known_reading \<lparr> temperature := Fin 0 \<rparr>)) \<rparr> =
     \<lparr> v_device = Some (of_ascii ''A''), v_timestamp = Fin 0, v_hexData = tolerance_hex,
       v_decoded = Some (known_reading \<lparr> temperature := js_lit (1 / 100) \<rparr>),
       actual = Some (known_reading \<lparr> temperature := Fin 0 \<rparr>),
       differences = Some \<lparr> temperature = Digits False 100, humidity = Digits False 0,
                            pressure = Digits False 0 \<rparr>,
       matches = Some \<lparr> temperature = True, humidity = True, pressure = True \<rparr>,
       isAccurate = True, tolerance = Some (js_lit (1 / 100)), v_error = None \<rparr> \<and>
   compare_pair \<lparr> hexRecord = sample_record beyond_hex 0 None,
                  actualRecord = sample_record Undefined 0
                    (Some (known_reading \<lparr> temperature := Fin 0 \<rparr>)) \<rparr> =
     \<lparr> v_device = Some (of_ascii ''A''), v_timestamp = Fin 0, v_hexData = beyond_hex,
       v_decoded = Some (known_reading \<lparr> temperature := js_lit (101 / 10000) \<rparr>),
       actual = Some (known_reading \<lparr> temperature := Fin 0 \<rparr>),
       differences = Some \<lparr> temperature = Digits False 101, humidity = Digits False 0,
                            pressure = Digits False 0 \<rparr>,
       matches = Some \<lparr> temperature = False, humidity = True, pressure = True \<rparr>,
       isAccurate = False, tolerance = Some (js_lit (1 / 100)), v_error = None \<rparr> \<and>
   js_sub (js_lit (1 / 100)) (Fin 0) = js_lit (1 / 100) \<and>
   matches_exactly (js_lit (1 / 100)) (Fin 0) \<and>
   js_sub (js_lit (101 / 10000)) (Fin 0) = js_lit (101 / 10000) \<and>
   \<not> matches_exactly (js_lit (101 / 10000)) (Fin 0)"
proof -
  have t: "decodeHexString (hexData (hexRecord \<lparr> hexRecord = sample_record tolerance_hex 0 None,
      actualRecord = sample_record Undefined 0 (Some (known_reading \<lparr> temperature := Fin 0 \<rparr>)) \<rparr>)) =
      Inr (known_reading \<lparr> temperature := js_lit (1 / 100) \<rparr>)"
    by (simp add: tolerance_decode)
  have b: "decodeHexString (hexData (hexRecord \<lparr> hexRecord = sample_record beyond_hex 0 None,
      actualRecord = sample_record Undefined 0 (Some (known_reading \<lparr> temperature := Fin 0 \<rparr>)) \<rparr>)) =
      Inr (known_reading \<lparr> temperature := js_lit (101 / 10000) \<rparr>)"
    by (simp add: beyond_decode)
  note wt = C7_match_on_unrounded_difference [OF t, of "js_lit (1 / 100)" "Fin 0"]
  note wb = C7_match_on_unrounded_difference [OF b, of "js_lit (101 / 10000)" "Fin 0"]
  have mt: "matches_exactly (js_lit (1 / 100)) (Fin 0)"
    using wt js_sub_zero_tolerance by blast
  have mb: "\<not> matches_exactly (js_lit (101 / 10000)) (Fin 0)"
    using wb js_sub_zero_beyond by blast
  have same: "matches_exactly (js_lit (999 / 10)) (js_lit (999 / 10))"
    "matches_exactly (js_lit (2051893 / 2000)) (js_lit (2051893 / 2000))"
    by (simp_all add: lit_999 lit_1025)
  show ?thesis
    using wt [THEN conjunct1] wb [THEN conjunct1] mt mb same
    by (simp add: Let_def sample_record_def known_reading_def js_sub_zero_tolerance
        js_sub_zero_beyond js_sub_known toFixed_samples
        del: js_sub.simps toFixed.simps matches_exactly.simps)
qed

text \<open>
  C8. Batch operations keep a failure to its item. In batch decoding the result of a
  record does not depend on the records around it, and a record whose payload fails to
  decode yields the result with \<open>decoded: null\<close>, \<open>decodingSuccess: false\<close> and the error.
  In batch validation there is one result for each pair, the comparison of that pair,
  and a pair whose payload fails to decode yields the result with the error and
  \<open>isAccurate = false\<close>. Both operations are total: no record aborts the batch.
\<close>

theorem C8_failures_stay_local:
  "fetchAndDecodeData (xs @ r # ys) =
     fetchAndDecodeData xs @ (if truthy (hexData r) then [decode_record r] else []) @
     fetchAndDecodeData ys \<and>
   (decodeHexString (hexData r) = Inl e \<longrightarrow>
      decode_record r =
        \<lparr> d_device = device r, d_timestamp = timestamp r, originalHex = hexData r,
          decoded = None, hexBytes = None, decodingSuccess = False, d_error = Some e \<rparr>) \<and>
   length (validateDecodingAccuracy allData) = length (validationPairs allData) \<and>
   (i < length (validationPairs allData) \<longrightarrow>
      validateDecodingAccuracy allData ! i = compare_pair (validationPairs allData ! i)) \<and>
   (decodeHexString (hexData (hexRecord pair)) = Inl e' \<longrightarrow>
      compare_pair pair =
        \<lparr> v_device = device (hexRecord pair), v_timestamp = timestamp (hexRecord pair),
          v_hexData = hexData (hexRecord pair), v_decoded = None, actual = None,
          differences = None, matches = None, isAccurate = False, tolerance = None,
          v_error = Some e' \<rparr>)"
  by (simp add: fetchAndDecodeData_map decode_record_def validateDecodingAccuracy_def
      compare_pair_def)

theorem C8_failures_stay_local_witness:
  "fetchAndDecodeData [sample_record bad_hex 0 (Some known_reading),
                       sample_record known_hex 10000 (Some known_reading)] =
     [\<lparr> d_device = Some (of_ascii ''A''), d_timestamp = Fin 0, originalHex = bad_hex,
        decoded = None, hexBytes = None, decodingSuccess = False,
        d_error = Some InvalidFormat \<rparr>,
      \<lparr> d_device = Some (of_ascii ''A''), d_timestamp = Fin 10000, originalHex = known_hex,
        decoded = Some known_reading, hexBytes = Some (Fin 12), decodingSuccess = True,
        d_error = None \<rparr>] \<and>
   map v_error (validateDecodingAccuracy [sample_record bad_hex 0 (Some known_reading),
                       sample_record known_hex 10000 (Some known_reading)]) =
     [Some InvalidFormat, None] \<and>
   map isAccurate (validateDecodingAccuracy [sample_record bad_hex 0 (Some known_reading),
                       sample_record known_hex 10000 (Some known_reading)]) =
     [False, True]"
proof -
  define bad where "bad = sample_record bad_hex 0 (Some known_reading)"
  define good where "good = sample_record known_hex 10000 (Some known_reading)"
  have pairs: "validationPairs [bad, good] =
      [\<lparr> hexRecord = bad, actualRecord = bad \<rparr>, \<lparr> hexRecord = good, actualRecord = good \<rparr>]"
    by (simp add: validationPairs_eq spec_pair_def is_actual_for_sample bad_def good_def)
  have bd: "decodeHexString (hexData bad) = Inl InvalidFormat"
    by (simp add: bad_def bad_decode)
  have good_rec: "decode_record good =
      \<lparr> d_device = Some (of_ascii ''A''), d_timestamp = Fin 10000, originalHex = known_hex,
        decoded = Some known_reading, hexBytes = Some (Fin 12), decodingSuccess = True,
        d_error = None \<rparr>"
    by (simp add: decode_record_def good_def known_decode sample_record_def)
      (simp add: known_hex_def round_12)
  have good_cmp: "v_error (compare_pair \<lparr> hexRecord = good, actualRecord = good \<rparr>) = None"
    "isAccurate (compare_pair \<lparr> hexRecord = good, actualRecord = good \<rparr>)"
    by (simp_all add: good_def compare_known_self)
  note w = C8_failures_stay_local [of "[]" bad "[good]" InvalidFormat "[bad, good]" _
      "\<lparr> hexRecord = bad, actualRecord = bad \<rparr>" InvalidFormat]
  have batch: "fetchAndDecodeData [bad, good] =
      [\<lparr> d_device = device bad, d_timestamp = timestamp bad, originalHex = hexData bad,
         decoded = None, hexBytes = None, decodingSuccess = False,
         d_error = Some InvalidFormat \<rparr>, decode_record good]"
    using w [of 0] bd
    by (simp add: fetchAndDecodeData_map) (simp add: bad_def good_def)
  have res: "validateDecodingAccuracy [bad, good] =
      [compare_pair \<lparr> hexRecord = bad, actualRecord = bad \<rparr>,
       compare_pair \<lparr> hexRecord = good, actualRecord = good \<rparr>]"
  proof (rule nth_equalityI)
    show "length (validateDecodingAccuracy [bad, good]) =
        length [compare_pair \<lparr> hexRecord = bad, actualRecord = bad \<rparr>,
                compare_pair \<lparr> hexRecord = good, actualRecord = good \<rparr>]"
      using w [of 0] by (simp add: pairs)
  next
    fix i assume "i < length (validateDecodingAccuracy [bad, good])"
    then have i: "i < 2" using w [of 0] by (simp add: pairs)
    then have "i = 0 \<or> i = 1" by auto
    then show "validateDecodingAccuracy [bad, good] ! i =
        [compare_pair \<lparr> hexRecord = bad, actualRecord = bad \<rparr>,
         compare_pair \<lparr> hexRecord = good, actualRecord = good \<rparr>] ! i"
      using w [of 0] w [of 1] by (auto simp: pairs)
  qed
  have bad_cmp: "v_error (compare_pair \<lparr> hexRecord = bad, actualRecord = bad \<rparr>) = Some InvalidFormat"
    "\<not> isAccurate (compare_pair \<lparr> hexRecord = bad, actualRecord = bad \<rparr>)"
    using w [of 0] bd by simp_all
  show ?thesis
    unfolding bad_def [symmetric] good_def [symmetric]
    using batch good_rec res bad_cmp good_cmp
    by (simp add: bad_def sample_record_def)
qed

text \<open>
  C9 fails on the code: \<open>hexBytes\<close> is half the length of the original string, not of
  the stripped one. The known payload with one space in it decodes successfully and the
  result reports 12.5 bytes.
\<close>

theorem C9_hexBytes_of_spaced_payload:
  "decode_record (sample_record spaced_hex 0 None) =
     \<lparr> d_device = Some (of_ascii ''A''), d_timestamp = Fin 0, originalHex = spaced_hex,
       decoded = Some known_reading, hexBytes = Some (Fin (25 / 2)),
       decodingSuccess = True, d_error = None \<rparr>"
  by (simp add: decode_record_def spaced_decode sample_record_def round_25_2)
    (simp add: spaced_hex_def round_25_2)

text \<open>
  C10, as the claim states it, fails. Of two records of one device that both carry a hex
  payload and the three ground-truth fields, 1000 ms apart, the second is paired with
  the first, not with itself: the search takes the first record of the set that
  qualifies. And a record whose timestamp is no valid date (time value \<open>NaN\<close>) is not
  within the window of itself, so it is not paired at all.
\<close>

theorem C10_counterexample:
  "truthy (hexData (sample_record known_hex 1000 (Some known_reading))) \<and>
   gt_temperature (sample_record known_hex 1000 (Some known_reading)) \<noteq> None \<and>
   gt_humidity (sample_record known_hex 1000 (Some known_reading)) \<noteq> None \<and>
   gt_pressure (sample_record known_hex 1000 (Some known_reading)) \<noteq> None \<and>
   validationPairs [sample_record known_hex 0 (Some known_reading),
                    sample_record known_hex 1000 (Some known_reading)] =
     [\<lparr> hexRecord = sample_record known_hex 0 (Some known_reading),
        actualRecord = sample_record known_hex 0 (Some known_reading) \<rparr>,
      \<lparr> hexRecord = sample_record known_hex 1000 (Some known_reading),
        actualRecord = sample_record known_hex 0 (Some known_reading) \<rparr>] \<and>
   sample_record known_hex 0 (Some known_reading) \<noteq>
     sample_record known_hex 1000 (Some known_reading) \<and>
   validationPairs [(sample_record known_hex 0 (Some known_reading))\<lparr> timestamp := NaN \<rparr>] = []"
proof -
  have "validationPairs [(sample_record known_hex 0 (Some known_reading))\<lparr> timestamp := NaN \<rparr>] = []"
    by (simp add: validationPairs_eq spec_pair_def is_actual_for_def sample_record_def)
  moreover
  have "sample_record known_hex 0 (Some known_reading) \<noteq>
      sample_record known_hex 1000 (Some known_reading)"
    by (simp add: sample_record_def)
  moreover have "gt_temperature (sample_record known_hex 1000 (Some known_reading)) \<noteq> None"
    "gt_humidity (sample_record known_hex 1000 (Some known_reading)) \<noteq> None"
    "gt_pressure (sample_record known_hex 1000 (Some known_reading)) \<noteq> None"
    by (simp_all add: sample_record_def)
  ultimately show ?thesis
    by (simp add: validationPairs_eq spec_pair_def is_actual_for_sample known_hex_def)
qed

text \<open>
  C10, amended. The search never excludes the hex record itself: every record that
  carries a hex payload, the three ground-truth fields and a finite time value qualifies
  as its own ground-truth candidate. So when it is in the record set it is always
  paired, with the first record of the set that qualifies; that is the record itself
  whenever no record before it in the set qualifies.
\<close>

theorem C10_own_candidate:
  assumes "truthy (hexData record)"
    and "gt_temperature record \<noteq> None" "gt_humidity record \<noteq> None"
    and "gt_pressure record \<noteq> None" "timestamp record = Fin t"
  shows "is_actual_for record record \<and>
         (record \<in> set allData \<longrightarrow>
            (\<exists>found. find (is_actual_for record) allData = Some found \<and>
               \<lparr> hexRecord = record, actualRecord = found \<rparr> \<in> set (validationPairs allData))) \<and>
         ((\<forall>x\<in>set xs. \<not> is_actual_for record x) \<longrightarrow>
            \<lparr> hexRecord = record, actualRecord = record \<rparr>
              \<in> set (validationPairs (xs @ record # ys)))"
proof -
  have self: "is_actual_for record record" using assms(2-5) by (rule is_actual_for_self)
  have all: "\<exists>found. find (is_actual_for record) allData = Some found \<and>
        \<lparr> hexRecord = record, actualRecord = found \<rparr> \<in> set (validationPairs allData)"
    if mem: "record \<in> set allData"
  proof -
    from find_Some_ex [of "record" allData "is_actual_for record", OF mem self]
    obtain found where f: "find (is_actual_for record) allData = Some found" ..
    from paired_if_found [OF mem assms(1) f] f show ?thesis by (intro exI conjI)
  qed
  have first: "\<lparr> hexRecord = record, actualRecord = record \<rparr>
        \<in> set (validationPairs (xs @ record # ys))"
    if none: "\<forall>x\<in>set xs. \<not> is_actual_for record x"
  proof -
    have f: "find (is_actual_for record) (xs @ record # ys) = Some record"
      using self by (simp add: find_append_skip [OF none])
    have mem: "record \<in> set (xs @ record # ys)" by simp
    from paired_if_found [OF mem assms(1) f] show ?thesis .
  qed
  from self all first show ?thesis by (intro conjI impI)
qed

theorem C10_own_candidate_witness:
  "is_actual_for (sample_record known_hex 1000 (Some known_reading))
     (sample_record known_hex 1000 (Some known_reading)) \<and>
   (\<exists>found. \<lparr> hexRecord = sample_record known_hex 1000 (Some known_reading),
               actualRecord = found \<rparr>
      \<in> set (validationPairs [sample_record known_hex 0 (Some known_reading),
                               sample_record known_hex 1000 (Some known_reading)])) \<and>
   \<lparr> hexRecord = sample_record known_hex 1000 (Some known_reading),
     actualRecord = sample_record known_hex 1000 (Some known_reading) \<rparr>
     \<in> set (validationPairs [sample_record Undefined 0 None,
                             sample_record known_hex 1000 (Some known_reading)])"
proof -
  have a: "truthy (hexData (sample_record known_hex 1000 (Some known_reading)))"
    "gt_temperature (sample_record known_hex 1000 (Some known_reading)) \<noteq> None"
    "gt_humidity (sample_record known_hex 1000 (Some known_reading)) \<noteq> None"
    "gt_pressure (sample_record known_hex 1000 (Some known_reading)) \<noteq> None"
    "timestamp (sample_record known_hex 1000 (Some known_reading)) = Fin 1000"
    by (simp_all add: sample_record_def known_hex_def)
  note w = C10_own_candidate [OF a]
  have "\<forall>x\<in>set [sample_record Undefined 0 None].
      \<not> is_actual_for (sample_record known_hex 1000 (Some known_reading)) x"
    by (simp add: is_actual_for_sample)
  with w [of "[sample_record known_hex 0 (Some known_reading),
               sample_record known_hex 1000 (Some known_reading)]"
             "[sample_record Undefined 0 None]" "[]"]
  show ?thesis by auto
qed

end
